theory Spec2Isabelle
  imports Complex_Main "HOL-Library.Sublist"
begin

section \<open>Python text\<close>

text \<open>
  A Python \<open>str\<close> is a sequence of Unicode code points, so the model is a list of
  natural numbers, one per code point; \<open>len\<close> is \<open>length\<close>.  ASCII literals of the
  source are written through \<open>py\<close>; text of the source outside ASCII is written as the
  list of its code points.
\<close>

type_synonym pystr = "nat list"

definition py :: "string \<Rightarrow> pystr" where
  "py s = map of_char s"

text \<open>\<open>s.startswith(p)\<close>.\<close>

definition startswith :: "pystr \<Rightarrow> pystr \<Rightarrow> bool" where
  "startswith s p = prefix p s"

text \<open>\<open>sub in s\<close> for strings: \<open>sub\<close> occurs as a contiguous slice of \<open>s\<close>.\<close>

fun contains :: "pystr \<Rightarrow> pystr \<Rightarrow> bool" where
  "contains sub [] = (sub = [])"
| "contains sub (c # cs) = (prefix sub (c # cs) \<or> contains sub cs)"

text \<open>\<open>s.split('\n')\<close>: the pieces between line feeds; never an empty list.\<close>

fun split_nl :: "pystr \<Rightarrow> pystr list" where
  "split_nl [] = [[]]"
| "split_nl (c # cs) =
     (if c = 10 then [] # split_nl cs
      else (case split_nl cs of [] \<Rightarrow> [[c]] | l # ls \<Rightarrow> (c # l) # ls))"

text \<open>\<open>'\n'.join(lines)\<close>.\<close>

fun join_nl :: "pystr list \<Rightarrow> pystr" where
  "join_nl [] = []"
| "join_nl [l] = l"
| "join_nl (l # ls) = l @ 10 # join_nl ls"

text \<open>
  \<open>s.split(sep)\<close> for a separator that is not empty (every separator of the source
  is a literal): the pieces between the occurrences of \<open>sep\<close>, found from the left
  without overlap.  The second argument counts the characters of a matched separator
  still to be skipped.
\<close>

fun split_go :: "pystr \<Rightarrow> nat \<Rightarrow> pystr \<Rightarrow> pystr list" where
  "split_go sep k [] = [[]]"
| "split_go sep (Suc k) (c # cs) = split_go sep k cs"
| "split_go sep 0 (c # cs) =
     (if prefix sep (c # cs) then [] # split_go sep (length sep - 1) cs
      else (case split_go sep 0 cs of [] \<Rightarrow> [[c]] | l # ls \<Rightarrow> (c # l) # ls))"

definition split_str :: "pystr \<Rightarrow> pystr \<Rightarrow> pystr list" where
  "split_str s sep = split_go sep 0 s"

text \<open>
  The characters for which \<open>str.isspace\<close> holds; \<open>str.strip()\<close> and the class \<open>\s\<close>
  of \<open>re\<close> use the same set.
\<close>

definition py_isspace :: "nat \<Rightarrow> bool" where
  "py_isspace c =
     ((9 \<le> c \<and> c \<le> 13) \<or> (28 \<le> c \<and> c \<le> 32) \<or> c = 133 \<or> c = 160 \<or> c = 5760
      \<or> (8192 \<le> c \<and> c \<le> 8202) \<or> c = 8232 \<or> c = 8233 \<or> c = 8239 \<or> c = 8287
      \<or> c = 12288)"

definition strip :: "pystr \<Rightarrow> pystr" where
  "strip s = rev (dropWhile py_isspace (rev (dropWhile py_isspace s)))"

section \<open>state_manager.py\<close>

datatype TaskStatus = PENDING | PLANNING | CODING | TESTING | FIXING | COMPLETED | FAILED

datatype ValidationStatus = V_NOT_STARTED | V_PENDING | V_PASSED | V_FAILED

text \<open>The \<open>.value\<close> of each enum member.\<close>

fun TaskStatus_value :: "TaskStatus \<Rightarrow> pystr" where
  "TaskStatus_value PENDING = py ''pending''"
| "TaskStatus_value PLANNING = py ''planning''"
| "TaskStatus_value CODING = py ''coding''"
| "TaskStatus_value TESTING = py ''testing''"
| "TaskStatus_value FIXING = py ''fixing''"
| "TaskStatus_value COMPLETED = py ''completed''"
| "TaskStatus_value FAILED = py ''failed''"

fun ValidationStatus_value :: "ValidationStatus \<Rightarrow> pystr" where
  "ValidationStatus_value V_NOT_STARTED = py ''not_started''"
| "ValidationStatus_value V_PENDING = py ''pending''"
| "ValidationStatus_value V_PASSED = py ''passed''"
| "ValidationStatus_value V_FAILED = py ''failed''"

text \<open>
  JSON-native Python values: what \<open>json.load\<close> returns and what \<open>json.dump\<close> writes
  back unchanged (\<open>None\<close>, \<open>bool\<close>, \<open>int\<close>, \<open>str\<close>, \<open>list\<close>, \<open>dict\<close> with string
  keys in insertion order).
\<close>

datatype json =
    JNull
  | JBool bool
  | JInt int
  | JStr pystr
  | JArr "json list"
  | JObj "(pystr \<times> json) list"

record CodeChunk =
  cc_subtask :: pystr
  cc_code :: pystr
  cc_timestamp :: pystr
  cc_model_used :: pystr
  cc_rag_context :: "pystr list option"
  cc_errors :: "pystr list"

record ErrorInfo =
  ei_type :: pystr
  ei_description :: pystr
  ei_code_context :: pystr
  ei_timestamp :: pystr
  ei_user_feedback :: "pystr option"
  ei_suggested_fix :: "pystr option"

text \<open>
  One entry of \<open>code_history\<close>: the dictionary that \<open>add_code_chunk\<close> appends, with its
  five keys.
\<close>

record CodeRevision =
  timestamp :: pystr
  subtask :: pystr
  previous_code :: pystr
  new_code :: pystr
  model_used :: pystr

text \<open>One entry of \<open>user_feedback_history\<close>, as \<open>add_user_feedback\<close> builds it.\<close>

record Feedback =
  fb_timestamp :: pystr
  fb_question :: pystr
  fb_answer :: pystr

text \<open>
  The dataclass \<open>TaskState\<close>.  Its field \<open>generated_code\<close> is shadowed in the class
  body by a property over \<open>current_code\<close> (getter and setter), so it holds no value of
  its own and is the abbreviation below.
\<close>

record TaskState =
  task_id :: pystr
  original_task :: pystr
  created_at :: pystr
  updated_at :: pystr
  task_status :: TaskStatus
  validation_status :: ValidationStatus
  subtasks :: "pystr list"
  current_subtask_index :: int
  current_subtask :: "pystr option"
  metadata :: "(pystr \<times> json) list"
  code_chunks :: "CodeChunk list"
  current_code :: pystr
  code_history :: "CodeRevision list"
  errors_detected :: "ErrorInfo list"
  user_feedback_history :: "Feedback list"
  models_used :: "pystr list"
  rag_searches :: int
  total_executions :: int
  successful_executions :: int

abbreviation generated_code :: "TaskState \<Rightarrow> pystr" where
  "generated_code s \<equiv> current_code s"

text \<open>
  \<open>progress_percentage\<close>.  Python computes \<open>(index / len) * 100\<close> in binary floating
  point; the model computes the same expression over the reals.
\<close>

definition progress_percentage :: "TaskState \<Rightarrow> real" where
  "progress_percentage s =
     (if subtasks s = [] then 0
      else (real_of_int (current_subtask_index s) / real (length (subtasks s))) * 100)"

text \<open>
  \<open>add_code_chunk\<close>.  The two calls of \<open>datetime.now().isoformat()\<close> are the arguments
  \<open>now1\<close> (the entry's timestamp) and \<open>now2\<close> (the new \<open>updated_at\<close>).
\<close>

definition add_code_chunk ::
  "pystr \<Rightarrow> pystr \<Rightarrow> TaskState \<Rightarrow> pystr \<Rightarrow> pystr \<Rightarrow> pystr \<Rightarrow> TaskState" where
  "add_code_chunk now1 now2 s subtask' new_full_code model_used' =
     s\<lparr>code_history := code_history s @
          [\<lparr>timestamp = now1, subtask = subtask', previous_code = current_code s,
            new_code = new_full_code, model_used = model_used'\<rparr>],
       current_code := new_full_code,
       updated_at := now2\<rparr>"

definition add_error ::
  "pystr \<Rightarrow> pystr \<Rightarrow> TaskState \<Rightarrow> pystr \<Rightarrow> pystr \<Rightarrow> pystr \<Rightarrow> pystr option \<Rightarrow> TaskState" where
  "add_error now1 now2 s error_type description code_context user_feedback =
     s\<lparr>errors_detected := errors_detected s @
          [\<lparr>ei_type = error_type, ei_description = description,
            ei_code_context = code_context, ei_timestamp = now1,
            ei_user_feedback = user_feedback, ei_suggested_fix = None\<rparr>],
       updated_at := now2\<rparr>"

definition add_user_feedback ::
  "pystr \<Rightarrow> pystr \<Rightarrow> TaskState \<Rightarrow> pystr \<Rightarrow> pystr \<Rightarrow> TaskState" where
  "add_user_feedback now1 now2 s question answer =
     s\<lparr>user_feedback_history := user_feedback_history s @
          [\<lparr>fb_timestamp = now1, fb_question = question, fb_answer = answer\<rparr>],
       updated_at := now2\<rparr>"

text \<open>
  Indexing a Python list, \<open>xs[i]\<close>: positions \<open>0\<close> to \<open>len - 1\<close> from the front,
  \<open>-1\<close> down to \<open>-len\<close> from the back; any other index raises IndexError, which
  is \<open>None\<close> here.
\<close>

definition list_get :: "'a list \<Rightarrow> int \<Rightarrow> 'a option" where
  "list_get xs i =
     (if 0 \<le> i \<and> i < int (length xs) then Some (xs ! nat i)
      else if i < 0 \<and> - int (length xs) \<le> i then Some (xs ! nat (int (length xs) + i))
      else None)"

text \<open>
  \<open>move_to_next_subtask\<close>.  The result is \<open>None\<close> where \<open>subtasks[index]\<close> raises
  IndexError (an index below \<open>-len(subtasks) - 1\<close>).
\<close>

definition move_to_next_subtask :: "TaskState \<Rightarrow> TaskState option" where
  "move_to_next_subtask s =
     (if current_subtask_index s < int (length (subtasks s)) - 1 then
        (case list_get (subtasks s) (current_subtask_index s + 1) of
           None \<Rightarrow> None
         | Some t \<Rightarrow>
             Some (s\<lparr>current_subtask_index := current_subtask_index s + 1,
                     current_subtask := Some t,
                     task_status := CODING\<rparr>))
      else Some (s\<lparr>task_status := TESTING, current_subtask := None\<rparr>))"

text \<open>
  \<open>StateManager.create_new_state\<close>: the generated identifier and the two timestamps
  are arguments; every other field has the dataclass default.
\<close>

definition create_new_state :: "pystr \<Rightarrow> pystr \<Rightarrow> pystr \<Rightarrow> pystr \<Rightarrow> TaskState" where
  "create_new_state new_id now1 now2 original_task' =
     \<lparr>task_id = new_id, original_task = original_task',
      created_at = now1, updated_at = now2,
      task_status = PENDING, validation_status = V_NOT_STARTED,
      subtasks = [], current_subtask_index = 0, current_subtask = None,
      metadata = [], code_chunks = [], current_code = [],
      code_history = [], errors_detected = [], user_feedback_history = [],
      models_used = [], rag_searches = 0, total_executions = 0,
      successful_executions = 0\<rparr>"

subsection \<open>Serialising: \<open>to_dict\<close>, \<open>from_dict\<close>\<close>

definition CodeChunk_asdict :: "CodeChunk \<Rightarrow> json" where
  "CodeChunk_asdict c = JObj
     [(py ''subtask'', JStr (cc_subtask c)),
      (py ''code'', JStr (cc_code c)),
      (py ''timestamp'', JStr (cc_timestamp c)),
      (py ''model_used'', JStr (cc_model_used c)),
      (py ''rag_context'',
         (case cc_rag_context c of None \<Rightarrow> JNull | Some xs \<Rightarrow> JArr (map JStr xs))),
      (py ''errors'', JArr (map JStr (cc_errors c)))]"

definition json_opt_str :: "pystr option \<Rightarrow> json" where
  "json_opt_str v = (case v of None \<Rightarrow> JNull | Some x \<Rightarrow> JStr x)"

definition ErrorInfo_asdict :: "ErrorInfo \<Rightarrow> json" where
  "ErrorInfo_asdict e = JObj
     [(py ''type'', JStr (ei_type e)),
      (py ''description'', JStr (ei_description e)),
      (py ''code_context'', JStr (ei_code_context e)),
      (py ''timestamp'', JStr (ei_timestamp e)),
      (py ''user_feedback'', json_opt_str (ei_user_feedback e)),
      (py ''suggested_fix'', json_opt_str (ei_suggested_fix e))]"

definition CodeRevision_dict :: "CodeRevision \<Rightarrow> json" where
  "CodeRevision_dict r = JObj
     [(py ''timestamp'', JStr (timestamp r)),
      (py ''subtask'', JStr (subtask r)),
      (py ''previous_code'', JStr (previous_code r)),
      (py ''new_code'', JStr (new_code r)),
      (py ''model_used'', JStr (model_used r))]"

definition Feedback_dict :: "Feedback \<Rightarrow> json" where
  "Feedback_dict f = JObj
     [(py ''timestamp'', JStr (fb_timestamp f)),
      (py ''question'', JStr (fb_question f)),
      (py ''answer'', JStr (fb_answer f))]"

text \<open>
  \<open>to_dict\<close>: \<open>asdict(self)\<close> lists the dataclass fields in declaration order, the
  field \<open>generated_code\<close> among them (read through the property, so it repeats
  \<open>current_code\<close>); the two status entries are replaced by the enum values.
\<close>

definition to_dict :: "TaskState \<Rightarrow> json" where
  "to_dict s = JObj
     [(py ''task_id'', JStr (task_id s)),
      (py ''original_task'', JStr (original_task s)),
      (py ''created_at'', JStr (created_at s)),
      (py ''updated_at'', JStr (updated_at s)),
      (py ''task_status'', JStr (TaskStatus_value (task_status s))),
      (py ''validation_status'', JStr (ValidationStatus_value (validation_status s))),
      (py ''subtasks'', JArr (map JStr (subtasks s))),
      (py ''current_subtask_index'', JInt (current_subtask_index s)),
      (py ''current_subtask'', json_opt_str (current_subtask s)),
      (py ''metadata'', JObj (metadata s)),
      (py ''code_chunks'', JArr (map CodeChunk_asdict (code_chunks s))),
      (py ''generated_code'', JStr (generated_code s)),
      (py ''current_code'', JStr (current_code s)),
      (py ''code_history'', JArr (map CodeRevision_dict (code_history s))),
      (py ''errors_detected'', JArr (map ErrorInfo_asdict (errors_detected s))),
      (py ''user_feedback_history'', JArr (map Feedback_dict (user_feedback_history s))),
      (py ''models_used'', JArr (map JStr (models_used s))),
      (py ''rag_searches'', JInt (rag_searches s)),
      (py ''total_executions'', JInt (total_executions s)),
      (py ''successful_executions'', JInt (successful_executions s))]"

datatype py_exn = KeyError | ValueError | TypeError

text \<open>
  A dataclass constructor checks the names of its keyword arguments, never the types
  of their values.  \<open>Built x\<close> is an object whose fields hold values of the annotated
  types, the record \<open>x\<close>; \<open>Untyped\<close> is an object that Python builds all the same from
  values of other types, which the typed records here cannot hold.
\<close>

datatype 'a built = Built 'a | Untyped

text \<open>\<open>TaskStatus(v)\<close> and \<open>ValidationStatus(v)\<close>: lookup by value, ValueError otherwise.\<close>

definition TaskStatus_of :: "json \<Rightarrow> TaskStatus option" where
  "TaskStatus_of v =
     (case v of
        JStr x \<Rightarrow> find (\<lambda>m. TaskStatus_value m = x)
                    [PENDING, PLANNING, CODING, TESTING, FIXING, COMPLETED, FAILED]
      | _ \<Rightarrow> None)"

definition ValidationStatus_of :: "json \<Rightarrow> ValidationStatus option" where
  "ValidationStatus_of v =
     (case v of
        JStr x \<Rightarrow> find (\<lambda>m. ValidationStatus_value m = x)
                    [V_NOT_STARTED, V_PENDING, V_PASSED, V_FAILED]
      | _ \<Rightarrow> None)"

text \<open>Reading a value at its annotated type; \<open>None\<close> where the value has another type.\<close>

definition as_str :: "json \<Rightarrow> pystr option" where
  "as_str v = (case v of JStr x \<Rightarrow> Some x | _ \<Rightarrow> None)"

definition as_opt_str :: "json \<Rightarrow> pystr option option" where
  "as_opt_str v = (case v of JNull \<Rightarrow> Some None | JStr x \<Rightarrow> Some (Some x) | _ \<Rightarrow> None)"

definition as_int :: "json \<Rightarrow> int option" where
  "as_int v = (case v of JInt i \<Rightarrow> Some i | _ \<Rightarrow> None)"

definition as_list :: "(json \<Rightarrow> 'a option) \<Rightarrow> json \<Rightarrow> 'a list option" where
  "as_list f v = (case v of JArr xs \<Rightarrow> those (map f xs) | _ \<Rightarrow> None)"

definition as_opt_list :: "(json \<Rightarrow> 'a option) \<Rightarrow> json \<Rightarrow> 'a list option option" where
  "as_opt_list f v =
     (case v of JNull \<Rightarrow> Some None | _ \<Rightarrow> map_option Some (as_list f v))"

definition as_dict :: "json \<Rightarrow> (pystr \<times> json) list option" where
  "as_dict v = (case v of JObj kv \<Rightarrow> Some kv | _ \<Rightarrow> None)"

text \<open>A keyword argument with a default: the default where the key is absent.\<close>

definition field_or :: "(pystr \<times> json) list \<Rightarrow> pystr \<Rightarrow> 'a \<Rightarrow> (json \<Rightarrow> 'a option) \<Rightarrow> 'a option" where
  "field_or kv k d f = (case map_of kv k of None \<Rightarrow> Some d | Some v \<Rightarrow> f v)"

definition field_req :: "(pystr \<times> json) list \<Rightarrow> pystr \<Rightarrow> (json \<Rightarrow> 'a option) \<Rightarrow> 'a option" where
  "field_req kv k f = (case map_of kv k of None \<Rightarrow> None | Some v \<Rightarrow> f v)"

text \<open>
  \<open>cls(**kwargs)\<close> raises TypeError for a keyword that is no field and for a field
  without default that is not given.
\<close>

definition kwargs_ok :: "pystr list \<Rightarrow> pystr list \<Rightarrow> (pystr \<times> json) list \<Rightarrow> bool" where
  "kwargs_ok names required kv =
     (list_all (\<lambda>k. k \<in> set names) (map fst kv)
      \<and> list_all (\<lambda>k. k \<in> set (map fst kv)) required)"

definition CodeChunk_keys :: "pystr list" where
  "CodeChunk_keys =
     [py ''subtask'', py ''code'', py ''timestamp'', py ''model_used'',
      py ''rag_context'', py ''errors'']"

definition CodeChunk_required :: "pystr list" where
  "CodeChunk_required = [py ''subtask'', py ''code'', py ''timestamp'', py ''model_used'']"

text \<open>\<open>CodeChunk(**chunk)\<close>: TypeError unless \<open>chunk\<close> is a mapping with fitting keys.\<close>

definition CodeChunk_new :: "json \<Rightarrow> py_exn + CodeChunk built" where
  "CodeChunk_new chunk =
     (case chunk of
        JObj kv \<Rightarrow>
          if \<not> kwargs_ok CodeChunk_keys CodeChunk_required kv then Inl TypeError
          else
            (case (field_req kv (py ''subtask'') as_str, field_req kv (py ''code'') as_str,
                   field_req kv (py ''timestamp'') as_str,
                   field_req kv (py ''model_used'') as_str,
                   field_or kv (py ''rag_context'') None (as_opt_list as_str),
                   field_or kv (py ''errors'') [] (as_list as_str)) of
               (Some a, Some b, Some c, Some d, Some e, Some f) \<Rightarrow>
                 Inr (Built \<lparr>cc_subtask = a, cc_code = b, cc_timestamp = c,
                             cc_model_used = d, cc_rag_context = e, cc_errors = f\<rparr>)
             | _ \<Rightarrow> Inr Untyped)
      | _ \<Rightarrow> Inl TypeError)"

definition ErrorInfo_keys :: "pystr list" where
  "ErrorInfo_keys =
     [py ''type'', py ''description'', py ''code_context'', py ''timestamp'',
      py ''user_feedback'', py ''suggested_fix'']"

definition ErrorInfo_required :: "pystr list" where
  "ErrorInfo_required = [py ''type'', py ''description'', py ''code_context'', py ''timestamp'']"

definition ErrorInfo_new :: "json \<Rightarrow> py_exn + ErrorInfo built" where
  "ErrorInfo_new error =
     (case error of
        JObj kv \<Rightarrow>
          if \<not> kwargs_ok ErrorInfo_keys ErrorInfo_required kv then Inl TypeError
          else
            (case (field_req kv (py ''type'') as_str, field_req kv (py ''description'') as_str,
                   field_req kv (py ''code_context'') as_str,
                   field_req kv (py ''timestamp'') as_str,
                   field_or kv (py ''user_feedback'') None as_opt_str,
                   field_or kv (py ''suggested_fix'') None as_opt_str) of
               (Some a, Some b, Some c, Some d, Some e, Some f) \<Rightarrow>
                 Inr (Built \<lparr>ei_type = a, ei_description = b, ei_code_context = c,
                             ei_timestamp = d, ei_user_feedback = e, ei_suggested_fix = f\<rparr>)
             | _ \<Rightarrow> Inr Untyped)
      | _ \<Rightarrow> Inl TypeError)"

text \<open>
  What \<open>for x in v\<close> visits: the elements of a list, the characters of a string, the
  keys of a dictionary; TypeError for a value that is not iterable.
\<close>

definition py_iter :: "json \<Rightarrow> py_exn + json list" where
  "py_iter v =
     (case v of
        JArr xs \<Rightarrow> Inr xs
      | JStr x \<Rightarrow> Inr (map (\<lambda>c. JStr [c]) x)
      | JObj kv \<Rightarrow> Inr (map (\<lambda>p. JStr (fst p)) kv)
      | _ \<Rightarrow> Inl TypeError)"

text \<open>
  A list comprehension \<open>[new(**x) for x in xs]\<close>: the first exception ends it;
  otherwise the list is typed when each of its objects is.
\<close>

fun build_all :: "(json \<Rightarrow> py_exn + 'a built) \<Rightarrow> json list \<Rightarrow> py_exn + 'a list built" where
  "build_all new [] = Inr (Built [])"
| "build_all new (x # xs) =
     (case new x of
        Inl e \<Rightarrow> Inl e
      | Inr b \<Rightarrow>
          (case build_all new xs of
             Inl e \<Rightarrow> Inl e
           | Inr bs \<Rightarrow>
               (case (b, bs) of
                  (Built y, Built ys) \<Rightarrow> Inr (Built (y # ys))
                | _ \<Rightarrow> Inr Untyped)))"

definition as_CodeRevision :: "json \<Rightarrow> CodeRevision option" where
  "as_CodeRevision v =
     (case v of
        JObj kv \<Rightarrow>
          (case (field_req kv (py ''timestamp'') as_str, field_req kv (py ''subtask'') as_str,
                 field_req kv (py ''previous_code'') as_str,
                 field_req kv (py ''new_code'') as_str,
                 field_req kv (py ''model_used'') as_str) of
             (Some a, Some b, Some c, Some d, Some e) \<Rightarrow>
               if length kv = 5 then
                 Some \<lparr>timestamp = a, subtask = b, previous_code = c, new_code = d,
                       model_used = e\<rparr>
               else None
           | _ \<Rightarrow> None)
      | _ \<Rightarrow> None)"

definition as_Feedback :: "json \<Rightarrow> Feedback option" where
  "as_Feedback v =
     (case v of
        JObj kv \<Rightarrow>
          (case (field_req kv (py ''timestamp'') as_str, field_req kv (py ''question'') as_str,
                 field_req kv (py ''answer'') as_str) of
             (Some a, Some b, Some c) \<Rightarrow>
               if length kv = 3 then
                 Some \<lparr>fb_timestamp = a, fb_question = b, fb_answer = c\<rparr>
               else None
           | _ \<Rightarrow> None)
      | _ \<Rightarrow> None)"

definition TaskState_keys :: "pystr list" where
  "TaskState_keys =
     [py ''task_id'', py ''original_task'', py ''created_at'', py ''updated_at'',
      py ''task_status'', py ''validation_status'', py ''subtasks'',
      py ''current_subtask_index'', py ''current_subtask'', py ''metadata'',
      py ''code_chunks'', py ''generated_code'', py ''current_code'', py ''code_history'',
      py ''errors_detected'', py ''user_feedback_history'', py ''models_used'',
      py ''rag_searches'', py ''total_executions'', py ''successful_executions'']"

definition TaskState_required :: "pystr list" where
  "TaskState_required =
     [py ''task_id'', py ''original_task'', py ''created_at'', py ''updated_at'']"

text \<open>
  \<open>cls(**data)\<close> at the end of \<open>from_dict\<close>, with the two enum members and the two
  object lists already built.  The keyword \<open>generated_code\<close> is assigned through the
  property setter to \<open>current_code\<close> and then overwritten by the assignment of
  \<open>current_code\<close> itself (given or default), so its value is dropped.
\<close>

definition TaskState_new ::
  "(pystr \<times> json) list \<Rightarrow> TaskStatus \<Rightarrow> ValidationStatus \<Rightarrow> CodeChunk list built \<Rightarrow>
   ErrorInfo list built \<Rightarrow> py_exn + TaskState built" where
  "TaskState_new kv ts vs chunks errors =
     (if \<not> kwargs_ok TaskState_keys TaskState_required
             (kv @ [(py ''code_chunks'', JNull), (py ''errors_detected'', JNull)])
      then Inl TypeError
      else
        (case (chunks, errors) of
           (Built cs, Built es) \<Rightarrow>
             (case (field_req kv (py ''task_id'') as_str,
                    field_req kv (py ''original_task'') as_str,
                    field_req kv (py ''created_at'') as_str,
                    field_req kv (py ''updated_at'') as_str,
                    field_or kv (py ''subtasks'') [] (as_list as_str),
                    field_or kv (py ''current_subtask_index'') 0 as_int,
                    field_or kv (py ''current_subtask'') None as_opt_str,
                    field_or kv (py ''metadata'') [] as_dict,
                    field_or kv (py ''current_code'') [] as_str,
                    field_or kv (py ''code_history'') [] (as_list as_CodeRevision),
                    field_or kv (py ''user_feedback_history'') [] (as_list as_Feedback),
                    field_or kv (py ''models_used'') [] (as_list as_str),
                    field_or kv (py ''rag_searches'') 0 as_int,
                    field_or kv (py ''total_executions'') 0 as_int,
                    field_or kv (py ''successful_executions'') 0 as_int) of
                (Some tid, Some ot, Some ca, Some ua, Some sts, Some idx, Some cur, Some md,
                 Some cc, Some hist, Some fb, Some mu, Some rs, Some te, Some se) \<Rightarrow>
                  Inr (Built
                    \<lparr>task_id = tid, original_task = ot, created_at = ca, updated_at = ua,
                     task_status = ts, validation_status = vs,
                     subtasks = sts, current_subtask_index = idx, current_subtask = cur,
                     metadata = md, code_chunks = cs, current_code = cc,
                     code_history = hist, errors_detected = es,
                     user_feedback_history = fb, models_used = mu, rag_searches = rs,
                     total_executions = te, successful_executions = se\<rparr>)
              | _ \<Rightarrow> Inr Untyped)
         | _ \<Rightarrow> Inr Untyped))"

text \<open>
  \<open>from_dict\<close>, statement by statement.  \<open>data[key]\<close> raises TypeError when \<open>data\<close> is
  no dictionary and KeyError when the key is absent; \<open>data.get(key, [])\<close> gives the
  empty list for an absent key.
\<close>

definition from_dict :: "json \<Rightarrow> py_exn + TaskState built" where
  "from_dict data =
     (case data of
        JObj kv \<Rightarrow>
          (case map_of kv (py ''task_status'') of
             None \<Rightarrow> Inl KeyError
           | Some v1 \<Rightarrow>
          (case TaskStatus_of v1 of
             None \<Rightarrow> Inl ValueError
           | Some ts \<Rightarrow>
          (case map_of kv (py ''validation_status'') of
             None \<Rightarrow> Inl KeyError
           | Some v2 \<Rightarrow>
          (case ValidationStatus_of v2 of
             None \<Rightarrow> Inl ValueError
           | Some vs \<Rightarrow>
          (case py_iter (case map_of kv (py ''code_chunks'') of None \<Rightarrow> JArr [] | Some v \<Rightarrow> v) of
             Inl e \<Rightarrow> Inl e
           | Inr xs \<Rightarrow>
          (case build_all CodeChunk_new xs of
             Inl e \<Rightarrow> Inl e
           | Inr chunks \<Rightarrow>
          (case py_iter (case map_of kv (py ''errors_detected'') of None \<Rightarrow> JArr [] | Some v \<Rightarrow> v) of
             Inl e \<Rightarrow> Inl e
           | Inr ys \<Rightarrow>
          (case build_all ErrorInfo_new ys of
             Inl e \<Rightarrow> Inl e
           | Inr errors \<Rightarrow> TaskState_new kv ts vs chunks errors))))))))
      | _ \<Rightarrow> Inl TypeError)"

subsection \<open>\<open>StateManager\<close>\<close>

text \<open>
  The storage directory holds one file \<open><task_id>.json\<close> per state: a map from the
  identifier to the file's content.  A file is either text that \<open>json.load\<close> parses,
  held as the value it parses to, or text that it rejects with JSONDecodeError (or
  UnicodeDecodeError), both subclasses of ValueError; the empty file and a file that
  ends in the middle of the JSON text are of the second kind.
\<close>

datatype file_content = Parses json | Rejected

type_synonym storage = "pystr \<rightharpoonup> file_content"

text \<open>
  The file is opened with \<open>encoding='utf-8'\<close> and written by \<open>json.dump\<close> with
  \<open>ensure_ascii=False\<close>, so each character of each string (keys included) is
  encoded as UTF-8.  A surrogate code point, U+D800 to U+DFFF, has no UTF-8 encoding:
  writing it raises UnicodeEncodeError.  A Python string holds no code point above
  U+10FFFF.
\<close>

definition utf8_char :: "nat \<Rightarrow> bool" where
  "utf8_char c = (c < 55296 \<or> (57343 < c \<and> c < 1114112))"

fun json_encodable :: "json \<Rightarrow> bool" where
  "json_encodable JNull = True"
| "json_encodable (JBool b) = True"
| "json_encodable (JInt i) = True"
| "json_encodable (JStr x) = list_all utf8_char x"
| "json_encodable (JArr xs) = list_all json_encodable xs"
| "json_encodable (JObj kv) =
     list_all (\<lambda>p. list_all utf8_char (fst p) \<and> json_encodable (snd p)) kv"

text \<open>
  What \<open>save_state\<close> needs from its surroundings.
  \<^item> \<open>creatable name\<close>: \<open>open(filepath, 'w')\<close> succeeds for the file name
    \<open><task_id>.json\<close> in the storage directory.  It fails (OSError, or ValueError for
    a NUL character) for a name the file system does not take: too long, with a
    separator that leads into a missing directory, without permission.
  \<^item> \<open>within_limits v\<close>: the value \<open>v\<close> can be written out and read back within the
    limits of the interpreter and the device: the recursion limit for nested
    metadata, the limit on the digits of an integer (4300 by default from Python
    3.11), the space left on the device.
\<close>

record environment =
  creatable :: "pystr \<Rightarrow> bool"
  within_limits :: "json \<Rightarrow> bool"

text \<open>
  How \<open>save_state\<close> ends when it does not return: \<open>OpenError\<close> is the exception of
  \<open>open\<close>; \<open>DumpError\<close> is the exception of \<open>json.dump\<close>, UnicodeEncodeError for a
  surrogate or the error of an exceeded limit.  \<open>save_state\<close> catches neither.
\<close>

datatype save_error = OpenError | DumpError

text \<open>
  \<open>save_state\<close>: the exception, if any, and the storage afterwards.  A failed \<open>open\<close>
  changes nothing.  \<open>open(..., 'w')\<close> truncates the file and \<open>json.dump\<close> writes the
  text piece by piece, so a failed \<open>json.dump\<close> leaves a file that ends in the middle
  of the text, which \<open>json.load\<close> rejects.
\<close>

definition save_state ::
  "environment \<Rightarrow> storage \<Rightarrow> TaskState \<Rightarrow> save_error option \<times> storage" where
  "save_state env dir s =
     (if \<not> creatable env (task_id s @ py ''.json'') then (Some OpenError, dir)
      else if \<not> json_encodable (to_dict s) \<or> \<not> within_limits env (to_dict s)
           then (Some DumpError, dir(task_id s \<mapsto> Rejected))
      else (None, dir(task_id s \<mapsto> Parses (to_dict s))))"

text \<open>
  \<open>load_state\<close>: \<open>Inr None\<close> is the return value \<open>None\<close>, \<open>Inl e\<close> an exception that the
  \<open>except (json.JSONDecodeError, KeyError, ValueError)\<close> clause lets through.
\<close>

definition load_state :: "storage \<Rightarrow> pystr \<Rightarrow> py_exn + TaskState built option" where
  "load_state dir tid =
     (case dir tid of
        None \<Rightarrow> Inr None
      | Some Rejected \<Rightarrow> Inr None
      | Some (Parses state_dict) \<Rightarrow>
          (case from_dict state_dict of
             Inl KeyError \<Rightarrow> Inr None
           | Inl ValueError \<Rightarrow> Inr None
           | Inl TypeError \<Rightarrow> Inl TypeError
           | Inr state \<Rightarrow> Inr (Some state)))"

section \<open>modules/fixer.py: sanitizing\<close>

definition enc_decl :: pystr where
  "enc_decl = py ''# -*- coding: utf-8 -*-''"

text \<open>The test \<open>32 <= ord(char) <= 126 or char in '\n\t\r'\<close> of \<open>_sanitize_code\<close>.\<close>

definition permitted :: "nat \<Rightarrow> bool" where
  "permitted c = ((32 \<le> c \<and> c \<le> 126) \<or> c = 10 \<or> c = 9 \<or> c = 13)"

text \<open>
  The loop over \<open>lines\<close> in step 3 of \<open>_sanitize_code\<close>, with its two variables
  \<open>cleaned_lines\<close> and \<open>encoding_added\<close>.
\<close>

fun clean_loop :: "pystr list \<Rightarrow> pystr list \<Rightarrow> bool \<Rightarrow> pystr list \<times> bool" where
  "clean_loop [] cleaned_lines encoding_added = (cleaned_lines, encoding_added)"
| "clean_loop (line # rest) cleaned_lines encoding_added =
     (if contains enc_decl line then
        (if \<not> encoding_added then clean_loop rest (cleaned_lines @ [line]) True
         else clean_loop rest cleaned_lines encoding_added)
      else clean_loop rest (cleaned_lines @ [line]) encoding_added)"

text \<open>
  The loop of step 4: the first line that holds the declaration is popped and
  inserted at index 0; without such a line the list is unchanged.
\<close>

definition move_decl_first :: "pystr list \<Rightarrow> pystr list" where
  "move_decl_first cleaned_lines =
     (case dropWhile (\<lambda>l. \<not> contains enc_decl l) cleaned_lines of
        [] \<Rightarrow> cleaned_lines
      | line # after \<Rightarrow>
          line # takeWhile (\<lambda>l. \<not> contains enc_decl l) cleaned_lines @ after)"

text \<open>
  \<open>_sanitize_code\<close>.  \<open>cleaned_lines[0]\<close> is read only when \<open>encoding_added\<close> holds,
  and then \<open>cleaned_lines\<close> has a line (lemma \<open>clean_loop_added_nonempty\<close> below), so
  the read never raises.
\<close>

definition sanitize_code :: "pystr \<Rightarrow> pystr" where
  "sanitize_code code =
     (if code = [] then []
      else
        let code1 = (if \<not> startswith code enc_decl then enc_decl @ [10] @ code else code);
            code2 = map (\<lambda>c. if permitted c then c else 32) code1;
            lines = split_nl code2;
            (cleaned_lines, encoding_added) = clean_loop lines [] False;
            cleaned_lines' =
              (if encoding_added \<and> \<not> contains enc_decl (hd cleaned_lines)
               then move_decl_first cleaned_lines else cleaned_lines)
        in join_nl cleaned_lines')"

section \<open>modules/fixer.py: analysis and repair\<close>

text \<open>
  The collaborators of the pipeline are outside the program: the inference service,
  the retrieval index, the interpreter run as a subprocess, the operator at the
  console.  Each is a function from what the program hands over to what it gets back,
  and every theorem below holds for all such functions.
  \<^item> An inference call either raises (\<open>Inl\<close> of the exception's text) or returns the
    response text (\<open>Inr\<close>).  Its prompt is assembled from the arguments of the calling
    method and from retrieval results, so the reply is a function of those arguments.
  \<^item> \<open>rag.search(query, category, n_results)\<close> catches every exception itself and
    returns a list of hits; of a hit the program reads \<open>text\<close> and
    \<open>metadata.get('type', '')\<close>.
  \<^item> The sandbox is the body of the \<open>try\<close> in \<open>_execute_code_safe\<close> after the
    sanitizing: the temporary file, \<open>subprocess.run\<close> and the unlink.
  \<^item> \<open>input()\<close> returns a line or raises (\<open>None\<close>).
\<close>

record issue =
  i_type :: pystr
  i_description :: pystr
  i_severity :: pystr
  i_rag_context :: "pystr option"

record rag_hit =
  hit_text :: pystr
  hit_type :: pystr

datatype run_outcome =
    Exited int pystr pystr
  | TimeoutExpired
  | OtherException pystr

record services =
  planner_reply :: "pystr \<Rightarrow> pystr + pystr"
  coder_reply :: "pystr \<Rightarrow> pystr \<Rightarrow> pystr + pystr"
  fixer_reply :: "pystr \<Rightarrow> issue list \<Rightarrow> pystr \<Rightarrow> pystr + pystr"
  rag_search :: "pystr \<Rightarrow> pystr \<Rightarrow> nat \<Rightarrow> rag_hit list"
  sandbox :: "pystr \<Rightarrow> run_outcome"
  console_input :: "pystr \<Rightarrow> pystr option"

definition static_issue :: "pystr \<Rightarrow> pystr \<Rightarrow> pystr \<Rightarrow> issue" where
  "static_issue ty de se =
     \<lparr>i_type = ty, i_description = de, i_severity = se, i_rag_context = None\<rparr>"

text \<open>\<open>_static_analysis\<close>: six tests on the text, in the order of the source.\<close>

definition static_analysis :: "pystr \<Rightarrow> issue list" where
  "static_analysis code =
     (if \<not> startswith code enc_decl
      then [static_issue (py ''encoding_error'') (py ''Missing encoding declaration'')
              (py ''critical'')] else [])
     @ (if \<not> contains (py ''import pygame'') code
        then [static_issue (py ''missing_import'') (py ''Missing pygame import'')
                (py ''critical'')] else [])
     @ (if \<not> contains (py ''pygame.init()'') code
        then [static_issue (py ''missing_init'') (py ''Missing pygame.init()'')
                (py ''critical'')] else [])
     @ (if \<not> contains (py ''while'') code \<or> \<not> contains (py ''pygame.event.get()'') code
        then [static_issue (py ''missing_game_loop'') (py ''No main game loop found'')
                (py ''high'')] else [])
     @ (if \<not> contains (py ''pygame.display.flip()'') code
           \<and> \<not> contains (py ''pygame.display.update()'') code
        then [static_issue (py ''missing_display_update'') (py ''No screen update found'')
                (py ''high'')] else [])
     @ (if list_ex (\<lambda>c. c > 127) code
        then [static_issue (py ''non_ascii_chars'') (py ''Code contains non-ASCII characters'')
                (py ''critical'')] else [])"

text \<open>
  The dictionary returned by \<open>_execute_code_safe\<close>; the keys \<open>stdout\<close> and \<open>stderr\<close>
  are absent after a timeout or another exception.  \<open>MAX_CODE_EXECUTION_TIME\<close> is 30.
\<close>

record exec_result =
  er_success :: bool
  er_return_code :: int
  er_stdout :: "pystr option"
  er_stderr :: "pystr option"
  er_output :: pystr

definition execute_code_safe :: "services \<Rightarrow> pystr \<Rightarrow> exec_result" where
  "execute_code_safe sv code =
     (case sandbox sv (sanitize_code code) of
        Exited rc out err \<Rightarrow>
          \<lparr>er_success = (rc = 0), er_return_code = rc, er_stdout = Some out, er_stderr = Some err,
           er_output = (if err \<noteq> [] then err else out)\<rparr>
      | TimeoutExpired \<Rightarrow>
          \<lparr>er_success = False, er_return_code = - 1, er_stdout = None, er_stderr = None,
           er_output = py ''Timeout: Program ran for more than 30 seconds''\<rparr>
      | OtherException msg \<Rightarrow>
          \<lparr>er_success = False, er_return_code = - 1, er_stdout = None, er_stderr = None,
           er_output = py ''Execution error: '' @ msg\<rparr>)"

text \<open>\<open>_extract_rag_context\<close>: the first hit whose type mentions the error type.\<close>

definition extract_rag_context :: "rag_hit list \<Rightarrow> pystr \<Rightarrow> pystr" where
  "extract_rag_context similar_errors error_type =
     (case find (\<lambda>e. contains error_type (hit_type e)) similar_errors of
        None \<Rightarrow> []
      | Some e \<Rightarrow>
          take 300 (filter (\<lambda>c. c < 128 \<or> c = 10 \<or> c = 9 \<or> c = 13) (hit_text e)))"

definition runtime_issue :: "rag_hit list \<Rightarrow> pystr \<Rightarrow> pystr \<Rightarrow> pystr \<Rightarrow> pystr \<Rightarrow> issue" where
  "runtime_issue similar_errors ty de se key =
     \<lparr>i_type = ty, i_description = de, i_severity = se,
      i_rag_context = Some (extract_rag_context similar_errors key)\<rparr>"

text \<open>
  \<open>_analyze_runtime_error\<close>.  The word tested beside \<open>Timeout\<close> is the Cyrillic
  spelling of TIMEOUT in capitals, seven letters.
\<close>

definition analyze_runtime_error :: "services \<Rightarrow> pystr \<Rightarrow> exec_result \<Rightarrow> pystr \<Rightarrow> issue list" where
  "analyze_runtime_error sv code execution_result task_description =
     (let error_output = er_output execution_result;
          similar_errors =
            rag_search sv (if error_output \<noteq> [] then take 100 error_output
                           else py ''runtime error'') (py ''error_patterns'') 3
      in (if contains (py ''Non-UTF-8 code'') error_output
             \<or> contains (py ''encoding declared'') error_output
          then [runtime_issue similar_errors (py ''encoding_error'')
                  (py ''Encoding problem (file not UTF-8)'') (py ''critical'')
                  (py ''encoding_error'')] else [])
       @ (if contains (py ''ImportError'') error_output
          then [runtime_issue similar_errors (py ''import_error'')
                  (py ''Module import error'') (py ''critical'') (py ''import_error'')]
          else [])
       @ (if contains (py ''NameError'') error_output
          then [runtime_issue similar_errors (py ''name_error'')
                  (py ''Undefined variable or function'') (py ''high'') (py ''name_error'')]
          else [])
       @ (if contains (py ''SyntaxError'') error_output
             \<or> contains (py ''IndentationError'') error_output
          then [runtime_issue similar_errors (py ''syntax_error'')
                  (py ''Syntax or indentation error'') (py ''critical'') (py ''syntax_error'')]
          else [])
       @ (if contains (py ''AttributeError'') error_output
          then [runtime_issue similar_errors (py ''attribute_error'')
                  (py ''Object attribute error'') (py ''high'') (py ''attribute_error'')]
          else [])
       @ (if strip error_output = []
             \<or> contains [1058, 1040, 1049, 1052, 1040, 1059, 1058] error_output
             \<or> contains (py ''Timeout'') error_output
          then [runtime_issue similar_errors (py ''black_screen_or_timeout'')
                  (py ''Black screen or infinite loop'') (py ''high'') (py ''black_screen'')]
          else []))"

text \<open>
  \<open>_get_user_feedback\<close>: what it returns; its printing is not modelled.  The operator
  is asked only when the run failed.
\<close>

definition get_user_feedback :: "services \<Rightarrow> pystr \<Rightarrow> bool \<Rightarrow> pystr" where
  "get_user_feedback sv code execution_success =
     (if execution_success then py ''success''
      else
        (case console_input sv code of
           None \<Rightarrow> py ''auto_fix''
         | Some line \<Rightarrow>
             (let choice = strip line
              in if choice = py ''1'' then py ''auto_fix''
                 else if choice = py ''2'' then py ''manual_review''
                 else if choice = py ''3'' then py ''skip''
                 else if choice = py ''4'' then py ''cancel''
                 else py ''auto_fix'')))"

text \<open>
  The inner loop of the mechanical repair in \<open>_generate_fix\<close>: each line is kept, and
  \<open>pygame.init()\<close> is added after a line with \<open>import pygame\<close> while the lines
  collected so far, joined, do not hold it.
\<close>

fun insert_init :: "pystr list \<Rightarrow> pystr list \<Rightarrow> pystr list" where
  "insert_init [] new_lines = new_lines"
| "insert_init (line # lines) new_lines =
     (let new_lines1 = new_lines @ [line]
      in if contains (py ''import pygame'') line
            \<and> \<not> contains (py ''pygame.init()'') (join_nl new_lines1)
         then insert_init lines (new_lines1 @ [py ''pygame.init()''])
         else insert_init lines new_lines1)"

text \<open>The loop \<open>for error in errors\<close> of \<open>_generate_fix\<close>.\<close>

fun mechanical_fixes :: "issue list \<Rightarrow> pystr \<Rightarrow> pystr" where
  "mechanical_fixes [] fixed_code = fixed_code"
| "mechanical_fixes (error # errors) fixed_code =
     (if i_type error = py ''missing_init'' \<and> \<not> contains (py ''pygame.init()'') fixed_code
      then mechanical_fixes errors (join_nl (insert_init (split_nl fixed_code) []))
      else mechanical_fixes errors fixed_code)"

text \<open>
  The code taken out of a reply of the repair model: the text after the first
  \<open>```python\<close> up to the next \<open>```\<close>.  \<open>parts[1]\<close> exists whenever the marker occurs.
\<close>

definition fence_python :: pystr where
  "fence_python = [96, 96, 96] @ py ''python''"

definition fence :: pystr where
  "fence = [96, 96, 96]"

definition extract_fixed :: "pystr \<Rightarrow> pystr" where
  "extract_fixed response =
     (let fixed_code = strip response
      in if contains fence_python fixed_code then
           (case split_str fixed_code fence_python of
              _ # part1 # _ \<Rightarrow>
                (case split_str part1 fence of
                   part0 # _ \<Rightarrow> strip part0
                 | [] \<Rightarrow> fixed_code)
            | _ \<Rightarrow> fixed_code)
         else fixed_code)"

definition generate_fix :: "services \<Rightarrow> pystr \<Rightarrow> issue list \<Rightarrow> pystr \<Rightarrow> pystr \<Rightarrow> pystr" where
  "generate_fix sv code errors user_feedback task_description =
     (if user_feedback = py ''skip'' \<or> errors = [] then sanitize_code code
      else
        (let fixed_code = mechanical_fixes errors (sanitize_code code)
         in if list_ex (\<lambda>e. i_severity e = py ''critical'') errors
               \<and> user_feedback = py ''auto_fix''
            then
              (case fixer_reply sv task_description errors code of
                 Inr response \<Rightarrow> sanitize_code (extract_fixed response)
               | Inl e \<Rightarrow> sanitize_code code)
            else fixed_code))"

text \<open>The dictionary \<open>results\<close> of \<open>analyze_code\<close>.\<close>

record analysis =
  a_code :: pystr
  a_execution_success :: bool
  a_errors_detected :: "issue list"
  a_user_feedback :: "pystr option"
  a_fixed_code :: pystr
  a_fix_applied :: bool
  a_execution_result :: exec_result

definition analyze_code :: "services \<Rightarrow> pystr \<Rightarrow> pystr \<Rightarrow> analysis" where
  "analyze_code sv code task_description =
     (let static_issues = static_analysis code;
          execution_result = execute_code_safe sv code;
          errors =
            (if \<not> er_success execution_result
             then static_issues @ analyze_runtime_error sv code execution_result task_description
             else static_issues);
          results =
            \<lparr>a_code = code, a_execution_success = er_success execution_result,
             a_errors_detected = errors, a_user_feedback = None, a_fixed_code = code,
             a_fix_applied = False, a_execution_result = execution_result\<rparr>
      in if errors \<noteq> [] \<or> \<not> er_success execution_result then
           (let user_feedback = get_user_feedback sv code (er_success execution_result)
            in if user_feedback \<noteq> py ''skip'' then
                 (let fixed_code = generate_fix sv code errors user_feedback task_description
                  in results\<lparr>a_user_feedback := Some user_feedback,
                              a_fixed_code := fixed_code,
                              a_fix_applied := (fixed_code \<noteq> code)\<rparr>)
               else results\<lparr>a_user_feedback := Some user_feedback\<rparr>)
         else results)"

section \<open>modules/planner.py\<close>

text \<open>
  Two tables of Python's Unicode database enter the planner: the class \<open>\d\<close> of
  \<open>re\<close> (the decimal digits) and \<open>str.lower()\<close>.  They belong to the interpreter,
  not to this program, and are parameters of the model.
\<close>

record unicode_tables =
  re_digit :: "nat \<Rightarrow> bool"
  str_lower :: "pystr \<Rightarrow> pystr"

text \<open>
  The tables on Basic Latin, where \<open>\d\<close> is \<open>0\<close> to \<open>9\<close> and \<open>lower\<close> maps \<open>A\<close> to \<open>Z\<close>
  onto \<open>a\<close> to \<open>z\<close>; on ASCII text they are Python's.
\<close>

definition basic_latin :: unicode_tables where
  "basic_latin =
     \<lparr>re_digit = (\<lambda>c. 48 \<le> c \<and> c \<le> 57),
      str_lower = map (\<lambda>c. if 65 \<le> c \<and> c \<le> 90 then c + 32 else c)\<rparr>"

text \<open>
  The tail \<open>\s*(.+)$\<close> of the first two patterns, matched against the rest of a
  line, and the text of group 1.  A line is a piece of \<open>split('\n')\<close> and holds no
  line feed, so \<open>.\<close> matches each of its characters.  \<open>\s*\<close> is greedy; when it would
  leave nothing for \<open>.+\<close> it gives one character back.
\<close>

definition tail_group :: "pystr \<Rightarrow> pystr option" where
  "tail_group rest =
     (if rest = [] then None
      else (let g = dropWhile py_isspace rest
            in Some (if g \<noteq> [] then g else [last rest])))"

text \<open>The tail \<open>\s+(.+)$\<close> of the third pattern: at least one space is consumed.\<close>

definition tail_group1 :: "pystr \<Rightarrow> pystr option" where
  "tail_group1 rest =
     (let ws = takeWhile py_isspace rest; g = dropWhile py_isspace rest
      in if ws = [] then None
         else if g \<noteq> [] then Some g
         else if 2 \<le> length ws then Some [last ws]
         else None)"

text \<open>
  \<open>re.match\<close> of the three patterns in turn, as the loop \<open>for pattern in patterns\<close>
  tries them: \<open>^\d+[\.\)]\s*(.+)$\<close>, then \<open>^[\-\*\<bullet>]\s*(.+)$\<close> (hyphen, asterisk or
  the bullet U+2022), then \<open>^\d+\s+(.+)$\<close>.  The result is group 1 of the first pattern
  that matches.
\<close>

definition match_patterns :: "unicode_tables \<Rightarrow> pystr \<Rightarrow> pystr option" where
  "match_patterns T line =
     (let ds = takeWhile (re_digit T) line; r = dropWhile (re_digit T) line;
          m1 = (case r of
                  c # rest \<Rightarrow> if ds \<noteq> [] \<and> (c = 46 \<or> c = 41) then tail_group rest else None
                | [] \<Rightarrow> None);
          m2 = (case line of
                  c # rest \<Rightarrow> if c = 45 \<or> c = 42 \<or> c = 8226 then tail_group rest else None
                | [] \<Rightarrow> None);
          m3 = (if ds \<noteq> [] then tail_group1 r else None)
      in case m1 of Some g \<Rightarrow> Some g
         | None \<Rightarrow> (case m2 of Some g \<Rightarrow> Some g | None \<Rightarrow> m3))"

text \<open>
  The filter on a matched subtask; the word looked for in the lowered text is the
  Russian for "example", six Cyrillic letters.
\<close>

definition keep_subtask :: "unicode_tables \<Rightarrow> pystr \<Rightarrow> bool" where
  "keep_subtask T subtask' =
     (length subtask' > 15 \<and> \<not> startswith subtask' [96, 96, 96]
      \<and> \<not> contains [1087, 1088, 1080, 1084, 1077, 1088] (str_lower T subtask'))"

text \<open>The loop over the lines of \<open>_parse_subtasks\<close>, with its list \<open>subtasks\<close>.\<close>

fun parse_lines :: "unicode_tables \<Rightarrow> pystr list \<Rightarrow> pystr list \<Rightarrow> pystr list" where
  "parse_lines T [] acc = acc"
| "parse_lines T (raw # lines) acc =
     (let line = strip raw
      in if line = [] \<or> length line < 10 then parse_lines T lines acc
         else
           (case match_patterns T line of
              Some g \<Rightarrow>
                (let subtask' = strip g
                 in if keep_subtask T subtask' then parse_lines T lines (acc @ [subtask'])
                    else parse_lines T lines acc)
            | None \<Rightarrow> parse_lines T lines acc))"

definition parse_subtasks :: "unicode_tables \<Rightarrow> pystr \<Rightarrow> pystr list" where
  "parse_subtasks T response = take 7 (parse_lines T (split_nl (strip response)) [])"

text \<open>
  \<open>_get_fallback_subtasks\<close>.  The three plans are Russian text, six entries each,
  given by their code points; the two words looked for in the lowered task are the
  Russian stems for "snake" and "platformer".
\<close>

definition base_tasks :: "pystr list" where
  "base_tasks =
     [[1048, 1085, 1080, 1094, 1080, 1072, 1083, 1080, 1079, 1072, 1094, 1080, 1103] @
        py '' PyGame '' @ [1080] @ py '' '' @ [1089, 1086, 1079, 1076, 1072, 1085,
        1080, 1077] @ py '' '' @ [1080, 1075, 1088, 1086, 1074, 1086, 1075, 1086] @
        py '' '' @ [1086, 1082, 1085, 1072],
      [1057, 1086, 1079, 1076, 1072, 1085, 1080, 1077] @ py '' '' @ [1086, 1089, 1085,
        1086, 1074, 1085, 1086, 1075, 1086] @ py '' '' @ [1080, 1075, 1088, 1086,
        1074, 1086, 1075, 1086] @ py '' '' @ [1086, 1073, 1098, 1077, 1082, 1090,
        1072],
      [1056, 1077, 1072, 1083, 1080, 1079, 1072, 1094, 1080, 1103] @ py '' '' @ [1091,
        1087, 1088, 1072, 1074, 1083, 1077, 1085, 1080, 1103] @ py '' '' @ [1086,
        1073, 1098, 1077, 1082, 1090, 1086, 1084],
      [1044, 1086, 1073, 1072, 1074, 1083, 1077, 1085, 1080, 1077] @ py '' '' @ [1080,
        1075, 1088, 1086, 1074, 1086, 1081] @ py '' '' @ [1083, 1086, 1075, 1080,
        1082, 1080] @ py '' '' @ [1080] @ py '' '' @ [1084, 1077, 1093, 1072, 1085,
        1080, 1082],
      [1053, 1072, 1089, 1090, 1088, 1086, 1081, 1082, 1072] @ py '' '' @ [1086, 1090,
        1086, 1073, 1088, 1072, 1078, 1077, 1085, 1080, 1103] @ py '' '' @ [1080] @
        py '' '' @ [1080, 1085, 1090, 1077, 1088, 1092, 1077, 1081, 1089, 1072],
      [1058, 1077, 1089, 1090, 1080, 1088, 1086, 1074, 1072, 1085, 1080, 1077] @
        py '' '' @ [1080] @ py '' '' @ [1086, 1090, 1083, 1072, 1076, 1082, 1072]]"

definition snake_tasks :: "pystr list" where
  "snake_tasks =
     [[1048, 1085, 1080, 1094, 1080, 1072, 1083, 1080, 1079, 1072, 1094, 1080, 1103] @
        py '' PyGame '' @ [1080] @ py '' '' @ [1080, 1075, 1088, 1086, 1074, 1086,
        1075, 1086] @ py '' '' @ [1087, 1086, 1083, 1103],
      [1057, 1086, 1079, 1076, 1072, 1085, 1080, 1077] @ py '' '' @ [1082, 1083, 1072,
        1089, 1089, 1072] @ py '' '' @ [1047, 1084, 1077, 1081, 1082, 1080] @
        py '' '' @ [1089] @ py '' '' @ [1076, 1074, 1080, 1078, 1077, 1085, 1080,
        1077, 1084],
      [1043, 1077, 1085, 1077, 1088, 1072, 1094, 1080, 1103] @ py '' '' @ [1077, 1076,
        1099] @ py '' '' @ [1085, 1072] @ py '' '' @ [1087, 1086, 1083, 1077],
      [1056, 1077, 1072, 1083, 1080, 1079, 1072, 1094, 1080, 1103] @ py '' '' @ [1091,
        1087, 1088, 1072, 1074, 1083, 1077, 1085, 1080, 1103] @ py '' '' @ [1089,
        1090, 1088, 1077, 1083, 1082, 1072, 1084, 1080],
      [1054, 1073, 1088, 1072, 1073, 1086, 1090, 1082, 1072] @ py '' '' @ [1089, 1090,
        1086, 1083, 1082, 1085, 1086, 1074, 1077, 1085, 1080, 1081] @ py '' '' @
        [1080] @ py '' '' @ [1088, 1086, 1089, 1090, 1072] @ py '' '' @ [1079,
        1084, 1077, 1081, 1082, 1080],
      [1054, 1090, 1086, 1073, 1088, 1072, 1078, 1077, 1085, 1080, 1077] @ py '' '' @
        [1089, 1095, 1077, 1090, 1072] @ py '' '' @ [1080] @ py '' '' @ [1080,
        1075, 1088, 1099]]"

definition platformer_tasks :: "pystr list" where
  "platformer_tasks =
     [[1057, 1086, 1079, 1076, 1072, 1085, 1080, 1077] @ py '' '' @ [1086, 1082, 1085,
        1072] @ py '' '' @ [1080] @ py '' '' @ [1092, 1086, 1085, 1072],
      [1056, 1077, 1072, 1083, 1080, 1079, 1072, 1094, 1080, 1103] @ py '' '' @ [1080,
        1075, 1088, 1086, 1082, 1072] @ py '' '' @ [1089] @ py '' '' @ [1092, 1080,
        1079, 1080, 1082, 1086, 1081] @ py '' '' @ [1080] @ py '' '' @ [1075, 1088,
        1072, 1074, 1080, 1090, 1072, 1094, 1080, 1077, 1081],
      [1057, 1086, 1079, 1076, 1072, 1085, 1080, 1077] @ py '' '' @ [1087, 1083, 1072,
        1090, 1092, 1086, 1088, 1084] @ py '' '' @ [1080] @ py '' '' @ [1087, 1088,
        1077, 1087, 1103, 1090, 1089, 1090, 1074, 1080, 1081],
      [1056, 1077, 1072, 1083, 1080, 1079, 1072, 1094, 1080, 1103] @ py '' '' @ [1091,
        1087, 1088, 1072, 1074, 1083, 1077, 1085, 1080, 1103] @ py '' '' @ [1080] @
        py '' '' @ [1087, 1088, 1099, 1078, 1082, 1072],
      [1054, 1073, 1085, 1072, 1088, 1091, 1078, 1077, 1085, 1080, 1077] @ py '' '' @
        [1089, 1090, 1086, 1083, 1082, 1085, 1086, 1074, 1077, 1085, 1080, 1081] @
        py '' '' @ [1089] @ py '' '' @ [1087, 1083, 1072, 1090, 1092, 1086, 1088,
        1084, 1072, 1084, 1080],
      [1044, 1086, 1073, 1072, 1074, 1083, 1077, 1085, 1080, 1077] @ py '' '' @ [1074,
        1088, 1072, 1075, 1086, 1074] @ py '' '' @ [1080, 1083, 1080] @ py '' '' @
        [1089, 1086, 1073, 1080, 1088, 1072, 1077, 1084, 1099, 1093] @ py '' '' @
        [1087, 1088, 1077, 1076, 1084, 1077, 1090, 1086, 1074]]"

definition get_fallback_subtasks :: "unicode_tables \<Rightarrow> pystr \<Rightarrow> pystr list" where
  "get_fallback_subtasks T task_description =
     (if contains [1079, 1084, 1077, 1081, 1082] (str_lower T task_description) then snake_tasks
      else if contains [1087, 1083, 1072, 1090, 1092, 1086, 1088, 1084, 1077, 1088] (str_lower T task_description) then platformer_tasks
      else base_tasks)"

text \<open>
  \<open>decompose_task\<close>: the reply of the planner model is parsed; an empty parse and an
  exception of the inference call both lead to the fallback plan.
\<close>

definition decompose_task :: "unicode_tables \<Rightarrow> services \<Rightarrow> pystr \<Rightarrow> pystr list" where
  "decompose_task T sv task_description =
     (case planner_reply sv task_description of
        Inr response \<Rightarrow>
          (let subtasks' = parse_subtasks T response
           in if subtasks' = [] then get_fallback_subtasks T task_description
              else subtasks')
      | Inl e \<Rightarrow> get_fallback_subtasks T task_description)"

section \<open>modules/coder.py\<close>

text \<open>
  The program returned by \<open>generate\<close> when the inference call raises: a comment with
  the modification, a line with the first 100 characters of the exception's text, and
  a fixed skeleton.  The two Russian phrases are given by their code points.
\<close>

definition fallback_skeleton :: "pystr list" where
  "fallback_skeleton =
     [py ''        import pygame'',
      [],
      py ''        def main():'',
      py ''        pygame.init()'',
      py ''        screen = pygame.display.set_mode((800, 600))'',
      py ''        clock = pygame.time.Clock()'',
      py ''        running = True'',
      [],
      py ''        while running:'',
      py ''            for event in pygame.event.get():'',
      py ''                if event.type == pygame.QUIT:'',
      py ''                    running = False'',
      py ''            '',
      py ''            screen.fill((0, 0, 0))'',
      py ''            pygame.display.flip()'',
      py ''            clock.tick(60)'',
      [],
      py ''        pygame.quit()'',
      py ''        if name == '' @ [34] @ py ''main'' @ [34] @ py '':'',
      py ''        main()'']"

definition fallback_comment :: pystr where
  "fallback_comment =
     py ''# '' @ [1040, 1074, 1090, 1086, 1084, 1072, 1090, 1080, 1095, 1077, 1089,
       1082, 1080] @ py '' '' @ [1089, 1075, 1077, 1085, 1077, 1088, 1080, 1088,
       1086, 1074, 1072, 1085, 1085, 1099, 1081] @ py '' '' @ [1082, 1086, 1076] @
       py '' '' @ [1076, 1083, 1103] @ py '': ''"

definition fallback_error_line :: pystr where
  "fallback_error_line =
     [10] @ py ''        '' @ [1054, 1096, 1080, 1073, 1082, 1072] @ py '' '' @ [1087,
       1088, 1080] @ py '' '' @ [1086, 1073, 1088, 1072, 1097, 1077, 1085, 1080,
       1080] @ py '' '' @ [1082] @ py '' '' @ [1084, 1086, 1076, 1077, 1083,
       1080] @ py '': ''"

definition fallback_code :: "pystr \<Rightarrow> pystr \<Rightarrow> pystr" where
  "fallback_code modification e =
     fallback_comment @ modification @ fallback_error_line @ take 100 e
     @ [10] @ join_nl fallback_skeleton"

text \<open>
  The text between code fences: \<open>g.split(marker)[1].split('```')[0].strip()\<close>.  The
  index 1 exists where the marker occurs in \<open>g\<close>; \<open>None\<close> is the IndexError otherwise.
\<close>

definition fenced :: "pystr \<Rightarrow> pystr \<Rightarrow> pystr option" where
  "fenced g marker =
     (case split_str g marker of
        _ # part1 # _ \<Rightarrow>
          (case split_str part1 fence of part0 # _ \<Rightarrow> Some (strip part0) | [] \<Rightarrow> None)
      | _ \<Rightarrow> None)"

text \<open>
  The test on a line of the reply: it starts, after stripping, with one of four lead-in
  words (two Russian, then \<open>Here\<close> and \<open>Modified\<close>), each followed by a space.
\<close>

definition is_preamble :: "pystr \<Rightarrow> bool" where
  "is_preamble line =
     (let stripped = strip line
      in startswith stripped ([1042, 1086, 1090] @ py '' '')
         \<or> startswith stripped ([1048, 1079, 1084, 1077, 1085, 1105, 1085, 1085, 1099, 1081] @ py '' '')
         \<or> startswith stripped (py ''Here '')
         \<or> startswith stripped (py ''Modified ''))"

text \<open>
  \<open>generate\<close>.  The arguments \<open>temperature\<close> and \<open>max_tokens\<close> are only passed on to the
  inference call.  The whole cleaning runs inside the \<open>try\<close>, so an IndexError there
  would reach the \<open>except\<close> clause as well, with the text \<open>list index out of range\<close>.
\<close>

definition generate :: "services \<Rightarrow> pystr \<Rightarrow> pystr \<Rightarrow> pystr" where
  "generate sv current_code' modification =
     (case coder_reply sv current_code' modification of
        Inl e \<Rightarrow> fallback_code modification e
      | Inr response \<Rightarrow>
          (let g0 = strip response;
               g1 = (if contains fence_python g0 then fenced g0 fence_python
                     else if contains fence g0 then fenced g0 fence
                     else Some g0)
           in case g1 of
                None \<Rightarrow> fallback_code modification (py ''list index out of range'')
              | Some g \<Rightarrow>
                  strip (join_nl (filter (\<lambda>line. \<not> is_preamble line) (split_nl g)))))"

section \<open>agent.py\<close>

text \<open>\<open>start_new_task\<close>: a fresh state in status PLANNING.\<close>

definition start_new_task :: "pystr \<Rightarrow> pystr \<Rightarrow> pystr \<Rightarrow> pystr \<Rightarrow> TaskState" where
  "start_new_task new_id now1 now2 task_description =
     (create_new_state new_id now1 now2 task_description)\<lparr>task_status := PLANNING\<rparr>"

text \<open>\<open>plan_task\<close>; \<open>MODELS["planner"]\<close> is \<open>phi3:mini\<close>.\<close>

definition plan_task :: "unicode_tables \<Rightarrow> services \<Rightarrow> TaskState \<Rightarrow> TaskState" where
  "plan_task T sv s =
     (let subtasks' = decompose_task T sv (original_task s)
      in s\<lparr>subtasks := subtasks',
           current_subtask_index := 0,
           current_subtask := (case subtasks' of [] \<Rightarrow> None | x # _ \<Rightarrow> Some x),
           task_status := CODING,
           models_used := models_used s @ [py ''phi3:mini'']\<rparr>)"

text \<open>
  The loop \<open>for error in fix_result["errors_detected"]\<close> of \<open>execute_subtask\<close>.  The
  readings of the clock during one call are numbered; \<open>clock k\<close> is the \<open>k\<close>-th.
\<close>

fun add_errors ::
  "(nat \<Rightarrow> pystr) \<Rightarrow> nat \<Rightarrow> TaskState \<Rightarrow> issue list \<Rightarrow> pystr \<Rightarrow> pystr option \<Rightarrow> TaskState" where
  "add_errors clock k s [] code_context user_feedback = s"
| "add_errors clock k s (error # errors) code_context user_feedback =
     add_errors clock (k + 2)
       (add_error (clock k) (clock (k + 1)) s (i_type error) (i_description error)
          code_context user_feedback)
       errors code_context user_feedback"

text \<open>
  \<open>execute_subtask\<close>; \<open>MODELS["coder"]\<close> is \<open>codellama:7b-instruct\<close>.  The result is
  the new state and the returned flag, or \<open>None\<close> where \<open>subtasks[subtask_index]\<close>
  raises IndexError before the \<open>try\<close>.  Inside the \<open>try\<close> every call of the model
  returns, so the \<open>except\<close> clause is not entered.
\<close>

definition execute_subtask ::
  "services \<Rightarrow> (nat \<Rightarrow> pystr) \<Rightarrow> TaskState \<Rightarrow> int \<Rightarrow> (TaskState \<times> bool) option" where
  "execute_subtask sv clock s subtask_index =
     (if subtask_index \<ge> int (length (subtasks s)) then Some (s, False)
      else
        (case list_get (subtasks s) subtask_index of
           None \<Rightarrow> None
         | Some subtask' \<Rightarrow>
             (let generated = generate sv (current_code s) subtask';
                  fix_result = analyze_code sv generated (original_task s);
                  final_code = (if a_fix_applied fix_result then a_fixed_code fix_result
                                else generated);
                  s1 = add_code_chunk (clock 0) (clock 1) s subtask' final_code
                         (py ''codellama:7b-instruct'');
                  s2 = add_errors clock 2 s1 (a_errors_detected fix_result)
                         (drop (length final_code - 500) final_code)
                         (a_user_feedback fix_result)
              in Some (s2, True))))"

text \<open>
  An image dictionary as the visualizer returns it; \<open>prompt\<close> is present for images of
  the diffusion backend only.
\<close>

record sprite =
  sp_path :: pystr
  sp_filename :: pystr
  sp_description :: pystr
  sp_type :: pystr
  sp_prompt :: "pystr option"
  sp_method :: pystr

definition sprite_dict :: "sprite \<Rightarrow> json" where
  "sprite_dict sp = JObj
     ([(py ''path'', JStr (sp_path sp)),
       (py ''filename'', JStr (sp_filename sp)),
       (py ''description'', JStr (sp_description sp)),
       (py ''type'', JStr (sp_type sp))]
      @ (case sp_prompt sp of None \<Rightarrow> [] | Some p \<Rightarrow> [(py ''prompt'', JStr p)])
      @ [(py ''method'', JStr (sp_method sp))])"

text \<open>\<open>d[k] = v\<close> on a dictionary: the value is replaced in place, or the key is added.\<close>

fun dict_set :: "(pystr \<times> json) list \<Rightarrow> pystr \<Rightarrow> json \<Rightarrow> (pystr \<times> json) list" where
  "dict_set [] k v = [(k, v)]"
| "dict_set ((k', v') # kv) k v =
     (if k' = k then (k, v) # kv else (k', v') # dict_set kv k v)"

text \<open>
  \<open>_create_sprite_loading_code\<close>: a header line (a comment in Russian capitals between
  \<open>=====\<close>) and six lines per sprite; backslashes of the path become slashes.
\<close>

definition sprite_lines :: "sprite \<Rightarrow> pystr list" where
  "sprite_lines sp =
     (let var_name = sp_type sp @ py ''_sprite'';
          path = map (\<lambda>c. if c = 92 then 47 else c) (sp_path sp)
      in [py ''try:'',
          py ''    '' @ var_name @ py '' = pygame.image.load('' @ [39] @ path
            @ [39] @ py '').convert_alpha()'',
          py ''    print(f'' @ [39, 1047, 1072, 1075, 1088, 1091, 1078, 1077, 1085] @
            py '' '' @ [1089, 1087, 1088, 1072, 1081, 1090] @ py '': ''
            @ take 20 (sp_description sp) @ py ''...'' @ [39] @ py '')'',
          py ''except Exception as e:'',
          py ''    print(f'' @ [39, 1054, 1096, 1080, 1073, 1082, 1072] @ py '' '' @ [1079,
            1072, 1075, 1088, 1091, 1079, 1082, 1080] @ py '' '' @ [1089, 1087,
            1088, 1072, 1081, 1090, 1072] @ py '' ''
            @ sp_filename sp @ py '': {e}'' @ [39] @ py '')'',
          py ''    '' @ var_name @ py '' = None  # Fallback'' @ [10]])"

definition create_sprite_loading_code :: "sprite list \<Rightarrow> pystr" where
  "create_sprite_loading_code sprites =
     join_nl
       (([10] @ py ''# ===== '' @ [1040, 1042, 1058, 1054, 1052, 1040, 1058, 1048, 1063,
          1045, 1057, 1050, 1048] @ py '' '' @ [1057, 1043, 1045, 1053, 1045, 1056,
          1048, 1056, 1054, 1042, 1040, 1053, 1053, 1067, 1045] @ py '' '' @ [1057,
          1055, 1056, 1040, 1049, 1058, 1067] @ py '' ====='' @ [10])
        # concat (map sprite_lines sprites))"

text \<open>
  The first loop of \<open>_inject_sprite_code\<close>: the sprite code becomes a new list element
  after the first line that holds \<open>pygame.display.set_mode\<close>; \<open>None\<close> without such a
  line.
\<close>

fun insert_after_set_mode :: "pystr list \<Rightarrow> pystr \<Rightarrow> pystr list option" where
  "insert_after_set_mode [] sprite_code = None"
| "insert_after_set_mode (line # lines) sprite_code =
     (if contains (py ''pygame.display.set_mode'') line then Some (line # sprite_code # lines)
      else map_option (\<lambda>ls. line # ls) (insert_after_set_mode lines sprite_code))"

definition main_guard :: pystr where
  "main_guard = py ''if __name__ == '' @ [34] @ py ''__main__'' @ [34] @ py '':''"

text \<open>
  \<open>_inject_sprite_code\<close>.  In the second branch \<open>parts[1]\<close> exists because the guard
  occurs in \<open>game_code\<close>.
\<close>

definition inject_sprite_code :: "pystr \<Rightarrow> pystr \<Rightarrow> pystr" where
  "inject_sprite_code game_code sprite_code =
     (case insert_after_set_mode (split_nl game_code) sprite_code of
        Some lines \<Rightarrow> join_nl lines
      | None \<Rightarrow>
          (if contains main_guard game_code then
             (case split_str game_code main_guard of
                part0 # part1 # _ \<Rightarrow> part0 @ sprite_code @ [10, 10] @ main_guard @ part1
              | _ \<Rightarrow> game_code @ [10, 10] @ sprite_code)
           else game_code @ [10, 10] @ sprite_code))"

text \<open>
  \<open>_add_sprites_to_game\<close>: the sprites are recorded in \<open>metadata\<close> and their loading
  code is written into \<open>current_code\<close> by direct assignment.
\<close>

definition add_sprites_to_game :: "TaskState \<Rightarrow> sprite list \<Rightarrow> TaskState" where
  "add_sprites_to_game s sprites =
     (if sprites = [] then s
      else
        (let s1 = s\<lparr>metadata :=
                      dict_set (metadata s) (py ''generated_sprites'')
                        (JArr (map sprite_dict sprites))\<rparr>;
             sprite_code = create_sprite_loading_code sprites
         in s1\<lparr>current_code := inject_sprite_code (current_code s1) sprite_code\<rparr>))"

text \<open>
  \<open>develop_game\<close>, step 5 ("final check"): the statements from
  \<open>self.current_state.task_status = TaskStatus.TESTING\<close> up to the saving of the state,
  applied to the state that the subtasks and the visuals have left.
\<close>

definition final_check :: "services \<Rightarrow> TaskState \<Rightarrow> pystr \<Rightarrow> TaskState" where
  "final_check sv s task_description =
     (let s1 = s\<lparr>task_status := TESTING\<rparr>
      in if current_code s1 \<noteq> [] then
           (let fix_result = analyze_code sv (current_code s1) task_description
            in if a_execution_success fix_result
               then s1\<lparr>validation_status := V_PASSED, task_status := COMPLETED\<rparr>
               else s1\<lparr>validation_status := V_FAILED\<rparr>)
         else s1\<lparr>task_status := FAILED\<rparr>)"

text \<open>
  The states of a session: what \<open>create_new_state\<close> builds and what the mutating
  statements of \<open>state_manager.py\<close> and \<open>agent.py\<close> make of such a state.
\<close>

inductive session :: "TaskState \<Rightarrow> bool" where
  created: "session (create_new_state new_id now1 now2 task)"
| status: "session s \<Longrightarrow> session (s\<lparr>task_status := st\<rparr>)"
| validation: "session s \<Longrightarrow> session (s\<lparr>validation_status := v\<rparr>)"
| planned: "session s \<Longrightarrow> session (plan_task T sv s)"
| selected: "session s \<Longrightarrow> i < length (subtasks s) \<Longrightarrow>
     session (s\<lparr>current_subtask_index := int i, current_subtask := Some (subtasks s ! i)\<rparr>)"
| executed: "session s \<Longrightarrow> execute_subtask sv clock s i = Some (s', ok) \<Longrightarrow> session s'"
| sprites: "session s \<Longrightarrow> session (add_sprites_to_game s sps)"
| saved_file: "session s \<Longrightarrow>
     session (s\<lparr>metadata := dict_set (metadata s) (py ''saved_file'') (JStr path)\<rparr>)"
| chunk: "session s \<Longrightarrow> session (add_code_chunk now1 now2 s st code m)"
| error: "session s \<Longrightarrow> session (add_error now1 now2 s ty de ctx fb)"
| feedback: "session s \<Longrightarrow> session (add_user_feedback now1 now2 s q a)"
| advanced: "session s \<Longrightarrow> move_to_next_subtask s = Some s' \<Longrightarrow> session s'"

text \<open>
  The chaining of the code history: each entry starts from the code that the entry
  before it produced, and \<open>current_code\<close> is what the last entry produced (the empty
  text without entries).
\<close>

fun chained :: "CodeRevision list \<Rightarrow> bool" where
  "chained (a # b # rest) = (new_code a = previous_code b \<and> chained (b # rest))"
| "chained _ = True"

definition history_consistent :: "TaskState \<Rightarrow> bool" where
  "history_consistent s =
     (chained (code_history s)
      \<and> current_code s = (if code_history s = [] then [] else new_code (last (code_history s))))"

section \<open>A concrete environment\<close>

text \<open>
  An environment for concrete runs: every inference call raises, retrieval finds
  nothing, the interpreter exits with code 0 and prints nothing, and the console is
  closed.
\<close>

definition offline :: services where
  "offline =
     \<lparr>planner_reply = (\<lambda>task. Inl (py ''connection refused'')),
      coder_reply = (\<lambda>code modification. Inl (py ''connection refused'')),
      fixer_reply = (\<lambda>task errors code. Inl (py ''connection refused'')),
      rag_search = (\<lambda>query category n. []),
      sandbox = (\<lambda>code. Exited 0 [] []),
      console_input = (\<lambda>code. None)\<rparr>"



text \<open>
  A state whose index lies beyond its plan of one subtask, and a state at the start of
  a plan of two.
\<close>

definition beyond_plan :: TaskState where
  "beyond_plan =
     (create_new_state (py ''task_1'') (py ''2025-12-21T07:29:35'') (py ''2025-12-21T07:29:35'')
        (py ''make a game''))
       \<lparr>subtasks := [py ''create window''], current_subtask_index := 5\<rparr>"

definition two_step_plan :: TaskState where
  "two_step_plan =
     (create_new_state (py ''task_1'') (py ''2025-12-21T07:29:35'') (py ''2025-12-21T07:29:35'')
        (py ''make a game''))
       \<lparr>subtasks := [py ''create window'', py ''add player''], current_subtask_index := 0\<rparr>"

text \<open>An image of the simple drawing backend, and a program that passes the static checklist.\<close>

definition hero :: sprite where
  "hero = \<lparr>sp_path = py ''sprites/simple_character_1.png'',
           sp_filename = py ''simple_character_1.png'',
           sp_description = py ''hero'', sp_type = py ''character'',
           sp_prompt = None, sp_method = py ''simple_pillow''\<rparr>"

definition tiny_game :: pystr where
  "tiny_game = join_nl
     [py ''# -*- coding: utf-8 -*-'',
      py ''import pygame'',
      py ''pygame.init()'',
      py ''while True:'',
      py ''    pygame.event.get()'',
      py ''    pygame.display.flip()'']"

section \<open>Properties of the task state\<close>

subsection \<open>Frame of \<open>add_code_chunk\<close>\<close>

text \<open>
  C10: \<open>add_code_chunk\<close> appends exactly one entry to \<open>code_history\<close>, sets
  \<open>current_code\<close> and \<open>updated_at\<close>, and leaves every other field of the state as it
  was.
\<close>

theorem add_code_chunk_frame:
  fixes s :: TaskState and now1 now2 st code m :: pystr
  defines "s' \<equiv> add_code_chunk now1 now2 s st code m"
  shows "code_history s' = code_history s @ [last (code_history s')]
    \<and> length (code_history s') = length (code_history s) + 1
    \<and> new_code (last (code_history s')) = code
    \<and> current_code s' = code
    \<and> updated_at s' = now2
    \<and> task_id s' = task_id s
    \<and> original_task s' = original_task s
    \<and> created_at s' = created_at s
    \<and> task_status s' = task_status s
    \<and> validation_status s' = validation_status s
    \<and> subtasks s' = subtasks s
    \<and> current_subtask_index s' = current_subtask_index s
    \<and> current_subtask s' = current_subtask s
    \<and> metadata s' = metadata s
    \<and> code_chunks s' = code_chunks s
    \<and> errors_detected s' = errors_detected s
    \<and> user_feedback_history s' = user_feedback_history s
    \<and> models_used s' = models_used s
    \<and> rag_searches s' = rag_searches s
    \<and> total_executions s' = total_executions s
    \<and> successful_executions s' = successful_executions s"
  unfolding s'_def add_code_chunk_def by simp

section \<open>Properties of the text operations and of sanitizing\<close>

lemma split_nl_nonempty: "split_nl s \<noteq> []"
  by (induction s) (auto split: list.splits)

lemma join_nl_Cons: "ls \<noteq> [] \<Longrightarrow> join_nl (l # ls) = l @ 10 # join_nl ls"
  by (cases ls) auto

lemma join_split_nl: "join_nl (split_nl s) = s"
proof (induction s)
  case Nil
  show ?case by simp
next
  case (Cons c cs)
  show ?case
  proof (cases "c = 10")
    case True
    with Cons show ?thesis by (simp add: join_nl_Cons split_nl_nonempty)
  next
    case False
    obtain l ls where e: "split_nl cs = l # ls"
      using split_nl_nonempty [of cs] by (cases "split_nl cs") auto
    with Cons False show ?thesis by (cases ls) auto
  qed
qed

lemma split_nl_no_nl: "l \<in> set (split_nl s) \<Longrightarrow> 10 \<notin> set l"
  by (induction s arbitrary: l) (auto split: if_splits list.splits)

lemma split_nl_chars: "l \<in> set (split_nl s) \<Longrightarrow> set l \<subseteq> set s"
proof (induction s arbitrary: l)
  case Nil
  then show ?case by simp
next
  case (Cons c cs)
  obtain l0 ls where e: "split_nl cs = l0 # ls"
    using split_nl_nonempty [of cs] by (cases "split_nl cs") auto
  have "set l0 \<subseteq> set cs" and "\<forall>k\<in>set ls. set k \<subseteq> set cs"
    using Cons.IH e by auto
  with Cons.prems e show ?case
    by (auto split: if_splits)
qed

lemma split_nl_line: "10 \<notin> set l \<Longrightarrow> split_nl (l @ 10 # s) = l # split_nl s"
  by (induction l) (auto split: list.splits)

lemma split_nl_single: "10 \<notin> set l \<Longrightarrow> split_nl l = [l]"
  by (induction l) (auto split: list.splits)

lemma split_join_nl:
  "ls \<noteq> [] \<Longrightarrow> \<forall>l\<in>set ls. 10 \<notin> set l \<Longrightarrow> split_nl (join_nl ls) = ls"
proof (induction ls rule: join_nl.induct)
  case 1
  then show ?case by simp
next
  case (2 l)
  then show ?case by (simp add: split_nl_single)
next
  case (3 l v va)
  then show ?case by (simp add: split_nl_line)
qed

lemma prefix_hd_split_nl:
  "prefix p s \<Longrightarrow> 10 \<notin> set p \<Longrightarrow> prefix p (hd (split_nl s))"
proof (induction p arbitrary: s)
  case Nil
  show ?case by simp
next
  case (Cons a p)
  then obtain s' where s: "s = a # s'" and p: "prefix p s'"
    by (cases s) auto
  obtain l ls where e: "split_nl s' = l # ls"
    using split_nl_nonempty [of s'] by (cases "split_nl s'") auto
  from Cons.IH [OF p] Cons.prems(2) e have "prefix p l" by simp
  with s e Cons.prems(2) show ?case by simp
qed

lemma prefix_contains: "prefix p s \<Longrightarrow> contains p s"
  by (cases s) auto

lemma clean_loop_True:
  "clean_loop ls acc True = (acc @ filter (\<lambda>l. \<not> contains enc_decl l) ls, True)"
  by (induction ls arbitrary: acc) auto

lemma clean_loop_first:
  "contains enc_decl l \<Longrightarrow>
   clean_loop (l # ls) acc False = (acc @ l # filter (\<lambda>l. \<not> contains enc_decl l) ls, True)"
  by (simp add: clean_loop_True)

lemma clean_loop_added_nonempty:
  "clean_loop ls acc b = (cleaned, True) \<Longrightarrow> b \<or> cleaned \<noteq> []"
  by (induction ls arbitrary: acc b) (auto split: if_splits simp: clean_loop_True)

lemma enc_decl_chars: "\<forall>c\<in>set enc_decl. permitted c \<and> c \<noteq> 10"
  by (simp add: enc_decl_def py_def permitted_def)

lemma enc_decl_nonempty: "enc_decl \<noteq> []"
  by (simp add: enc_decl_def py_def)


lemma join_nl_chars: "c \<in> set (join_nl ls) \<Longrightarrow> c = 10 \<or> (\<exists>l\<in>set ls. c \<in> set l)"
  by (induction ls rule: join_nl.induct) auto

lemma join_nl_prefix: "prefix l (join_nl (l # ls))"
  by (cases ls) auto

lemma blank_permitted:
  "\<forall>c\<in>set s. permitted c \<Longrightarrow> map (\<lambda>c. if permitted c then c else 32) s = s"
  by (induction s) auto

lemma blank_all_permitted: "\<forall>c\<in>set (map (\<lambda>c. if permitted c then c else 32) s). permitted c"
  by (auto simp: permitted_def)

lemma sanitize_code_shape:
  assumes "code \<noteq> []"
  shows "\<exists>l0 rest. sanitize_code code = join_nl (l0 # filter (\<lambda>l. \<not> contains enc_decl l) rest)
           \<and> prefix enc_decl l0
           \<and> (\<forall>l\<in>set (l0 # rest). 10 \<notin> set l \<and> (\<forall>c\<in>set l. permitted c))"
proof -
  define code1 where "code1 = (if \<not> startswith code enc_decl then enc_decl @ [10] @ code else code)"
  define code2 where "code2 = map (\<lambda>c. if permitted c then c else 32) code1"
  have p1: "prefix enc_decl code1"
    by (simp add: code1_def startswith_def)
  have "prefix (map (\<lambda>c. if permitted c then c else 32) enc_decl) code2"
    unfolding code2_def using p1 by (rule map_mono_prefix)
  then have p2: "prefix enc_decl code2"
    using enc_decl_chars by (simp add: blank_permitted)
  obtain l0 rest where e: "split_nl code2 = l0 # rest"
    using split_nl_nonempty [of code2] by (cases "split_nl code2") auto
  have "10 \<notin> set enc_decl" using enc_decl_chars by auto
  from prefix_hd_split_nl [OF p2 this] e have p3: "prefix enc_decl l0" by simp
  then have c3: "contains enc_decl l0" by (rule prefix_contains)
  have loop: "clean_loop (split_nl code2) [] False
      = (l0 # filter (\<lambda>l. \<not> contains enc_decl l) rest, True)"
    using clean_loop_first [OF c3, of rest "[]"] e by simp
  have res: "sanitize_code code = join_nl (l0 # filter (\<lambda>l. \<not> contains enc_decl l) rest)"
    using assms c3 loop
    by (simp add: sanitize_code_def Let_def code1_def [symmetric] code2_def [symmetric]
        del: clean_loop.simps)
  have lines: "\<forall>l\<in>set (l0 # rest). 10 \<notin> set l \<and> (\<forall>c\<in>set l. permitted c)"
  proof
    fix l assume "l \<in> set (l0 # rest)"
    then have m: "l \<in> set (split_nl code2)" using e by simp
    have "set l \<subseteq> set code2" using m by (rule split_nl_chars)
    moreover have "\<forall>c\<in>set code2. permitted c"
      unfolding code2_def by (rule blank_all_permitted)
    ultimately show "10 \<notin> set l \<and> (\<forall>c\<in>set l. permitted c)"
      using split_nl_no_nl [OF m] by auto
  qed
  from res p3 lines show ?thesis by blast
qed

lemma sanitize_code_fixed:
  assumes p: "prefix enc_decl l0"
    and lines: "\<forall>l\<in>set (l0 # ls). 10 \<notin> set l \<and> (\<forall>c\<in>set l. permitted c)"
    and nodecl: "\<forall>l\<in>set ls. \<not> contains enc_decl l"
  shows "sanitize_code (join_nl (l0 # ls)) = join_nl (l0 # ls)"
proof -
  let ?y = "join_nl (l0 # ls)"
  have py: "prefix enc_decl ?y"
    using p join_nl_prefix [of l0 ls] by (rule prefix_order.trans)
  then have ne: "?y \<noteq> []" using enc_decl_nonempty by auto
  have perm: "\<forall>c\<in>set ?y. permitted c"
  proof
    fix c assume "c \<in> set ?y"
    from join_nl_chars [OF this] lines show "permitted c"
      by (auto simp: permitted_def)
  qed
  have sp: "split_nl ?y = l0 # ls"
    using lines by (intro split_join_nl) auto
  have c0: "contains enc_decl l0" using p by (rule prefix_contains)
  have f: "filter (\<lambda>l. \<not> contains enc_decl l) ls = ls"
    using nodecl by (simp add: filter_id_conv)
  have loop: "clean_loop (l0 # ls) [] False = (l0 # ls, True)"
    using clean_loop_first [OF c0, of ls "[]"] f by simp
  show ?thesis
    using ne py c0 loop
    by (simp add: sanitize_code_def Let_def startswith_def blank_permitted [OF perm] sp
        del: clean_loop.simps join_nl.simps)
qed

lemma sanitize_code_idem: "sanitize_code (sanitize_code x) = sanitize_code x"
proof (cases "x = []")
  case True
  then show ?thesis by (simp add: sanitize_code_def)
next
  case False
  from sanitize_code_shape [OF False] obtain l0 rest where
    r: "sanitize_code x = join_nl (l0 # filter (\<lambda>l. \<not> contains enc_decl l) rest)"
    and p: "prefix enc_decl l0"
    and l: "\<forall>l\<in>set (l0 # rest). 10 \<notin> set l \<and> (\<forall>c\<in>set l. permitted c)"
    by blast
  have "sanitize_code (join_nl (l0 # filter (\<lambda>l. \<not> contains enc_decl l) rest))
      = join_nl (l0 # filter (\<lambda>l. \<not> contains enc_decl l) rest)"
    using p l by (intro sanitize_code_fixed) auto
  with r show ?thesis by simp
qed

lemma filter_decl_first:
  assumes "contains enc_decl l0"
  shows "filter (contains enc_decl) (l0 # filter (\<lambda>l. \<not> contains enc_decl l) rest) = [l0]"
proof -
  have "filter (contains enc_decl) (filter (\<lambda>l. \<not> contains enc_decl l) rest) = []"
    by (induction rest) auto
  with assms show ?thesis by simp
qed

text \<open>
  C3, amended: sanitizing is idempotent and leaves only characters of the permitted
  set, for every text.  For every text that is not empty the result starts with the
  encoding declaration and exactly one of its lines holds a declaration, the first
  one.  The empty text is returned as it is, without a declaration.
\<close>

theorem sanitize_code_idempotent_one_declaration:
  "sanitize_code (sanitize_code x) = sanitize_code x
   \<and> list_all permitted (sanitize_code x)
   \<and> (x = [] \<longrightarrow> sanitize_code x = [])
   \<and> (x \<noteq> [] \<longrightarrow>
        startswith (sanitize_code x) enc_decl
        \<and> length (filter (contains enc_decl) (split_nl (sanitize_code x))) = 1
        \<and> contains enc_decl (hd (split_nl (sanitize_code x))))"
proof (cases "x = []")
  case True
  then show ?thesis by (simp add: sanitize_code_def)
next
  case False
  from sanitize_code_shape [OF False] obtain l0 rest where
    r: "sanitize_code x = join_nl (l0 # filter (\<lambda>l. \<not> contains enc_decl l) rest)"
    and p: "prefix enc_decl l0"
    and l: "\<forall>l\<in>set (l0 # rest). 10 \<notin> set l \<and> (\<forall>c\<in>set l. permitted c)"
    by blast
  let ?ls = "l0 # filter (\<lambda>l. \<not> contains enc_decl l) rest"
  have c0: "contains enc_decl l0" using p by (rule prefix_contains)
  have sp: "split_nl (sanitize_code x) = ?ls"
    unfolding r using l by (intro split_join_nl) auto
  have perm: "list_all permitted (sanitize_code x)"
    unfolding r list_all_iff
  proof
    fix c assume "c \<in> set (join_nl ?ls)"
    from join_nl_chars [OF this] l show "permitted c"
      by (auto simp: permitted_def)
  qed
  have st: "startswith (sanitize_code x) enc_decl"
    unfolding r startswith_def
    using p join_nl_prefix [of l0] by (rule prefix_order.trans)
  have one: "length (filter (contains enc_decl) (split_nl (sanitize_code x))) = 1"
    unfolding sp using filter_decl_first [OF c0, of rest] by simp
  have top: "contains enc_decl (hd (split_nl (sanitize_code x)))"
    unfolding sp using c0 by simp
  from False sanitize_code_idem [of x] perm st one top show ?thesis by simp
qed

lemma sanitize_code_print: "sanitize_code (py ''print(1)'') = enc_decl @ [10] @ py ''print(1)''"
  by (simp add: sanitize_code_def enc_decl_def py_def startswith_def permitted_def)

text \<open>The amended C3 at the one-line program \<open>print(1)\<close>.\<close>

theorem sanitize_code_idempotent_one_declaration_witness:
  "py ''print(1)'' \<noteq> []
   \<and> sanitize_code (sanitize_code (py ''print(1)'')) = sanitize_code (py ''print(1)'')
   \<and> startswith (sanitize_code (py ''print(1)'')) enc_decl
   \<and> length (filter (contains enc_decl) (split_nl (sanitize_code (py ''print(1)'')))) = 1"
  using sanitize_code_idempotent_one_declaration [of "py ''print(1)''"]
  by (simp add: py_def)

text \<open>
  C3 as stated fails at the empty text: its sanitized form is the empty text, which
  holds no encoding declaration.
\<close>

theorem sanitize_code_empty_counterexample:
  "sanitize_code [] = []
   \<and> \<not> startswith (sanitize_code []) enc_decl
   \<and> length (filter (contains enc_decl) (split_nl (sanitize_code []))) = 0"
  by (simp add: sanitize_code_def startswith_def enc_decl_def py_def)

text \<open>
  The count above is a count of lines: a first line that repeats the declaration is
  kept as it is.
\<close>

lemma sanitize_code_two_on_first_line:
  "sanitize_code (enc_decl @ enc_decl) = enc_decl @ enc_decl"
  by (simp add: sanitize_code_def enc_decl_def py_def startswith_def permitted_def)

section \<open>Properties of saving and loading\<close>

lemma those_map_roundtrip:
  "(\<And>x. f (g x) = Some x) \<Longrightarrow> those (map (f \<circ> g) xs) = Some xs"
  by (induction xs) auto

lemma as_str_JStr: "as_str (JStr x) = Some x"
  by (simp add: as_str_def)

lemma as_list_str: "as_list as_str (JArr (map JStr xs)) = Some xs"
  by (simp add: as_list_def as_str_JStr those_map_roundtrip)

lemma as_opt_str_roundtrip: "as_opt_str (json_opt_str v) = Some v"
  by (cases v) (simp_all add: as_opt_str_def json_opt_str_def)

lemma as_CodeRevision_roundtrip: "as_CodeRevision (CodeRevision_dict r) = Some r"
  by (simp add: as_CodeRevision_def CodeRevision_dict_def field_req_def as_str_def py_def)

lemma as_Feedback_roundtrip: "as_Feedback (Feedback_dict f) = Some f"
  by (simp add: as_Feedback_def Feedback_dict_def field_req_def as_str_def py_def)

lemma CodeChunk_roundtrip: "CodeChunk_new (CodeChunk_asdict c) = Inr (Built c)"
  by (cases "cc_rag_context c")
     (simp_all add: CodeChunk_new_def CodeChunk_asdict_def kwargs_ok_def CodeChunk_keys_def
        CodeChunk_required_def field_req_def field_or_def as_str_def as_opt_list_def
        as_list_str py_def)

lemma ErrorInfo_roundtrip: "ErrorInfo_new (ErrorInfo_asdict e) = Inr (Built e)"
  by (simp add: ErrorInfo_new_def ErrorInfo_asdict_def kwargs_ok_def ErrorInfo_keys_def
        ErrorInfo_required_def field_req_def field_or_def as_str_def as_opt_str_roundtrip
        py_def)

lemma build_all_roundtrip:
  "(\<And>x. new (g x) = Inr (Built x)) \<Longrightarrow> build_all new (map g xs) = Inr (Built xs)"
  by (induction xs) auto

lemma TaskStatus_roundtrip: "TaskStatus_of (JStr (TaskStatus_value t)) = Some t"
  by (cases t) (simp_all add: TaskStatus_of_def py_def)

lemma ValidationStatus_roundtrip: "ValidationStatus_of (JStr (ValidationStatus_value t)) = Some t"
  by (cases t) (simp_all add: ValidationStatus_of_def py_def)


lemma TaskState_new_roundtrip:
  "TaskState_new
     [(py ''task_id'', JStr (task_id s)),
      (py ''original_task'', JStr (original_task s)),
      (py ''created_at'', JStr (created_at s)),
      (py ''updated_at'', JStr (updated_at s)),
      (py ''task_status'', JStr (TaskStatus_value (task_status s))),
      (py ''validation_status'', JStr (ValidationStatus_value (validation_status s))),
      (py ''subtasks'', JArr (map JStr (subtasks s))),
      (py ''current_subtask_index'', JInt (current_subtask_index s)),
      (py ''current_subtask'', json_opt_str (current_subtask s)),
      (py ''metadata'', JObj (metadata s)),
      (py ''code_chunks'', JArr (map CodeChunk_asdict (code_chunks s))),
      (py ''generated_code'', JStr (generated_code s)),
      (py ''current_code'', JStr (current_code s)),
      (py ''code_history'', JArr (map CodeRevision_dict (code_history s))),
      (py ''errors_detected'', JArr (map ErrorInfo_asdict (errors_detected s))),
      (py ''user_feedback_history'', JArr (map Feedback_dict (user_feedback_history s))),
      (py ''models_used'', JArr (map JStr (models_used s))),
      (py ''rag_searches'', JInt (rag_searches s)),
      (py ''total_executions'', JInt (total_executions s)),
      (py ''successful_executions'', JInt (successful_executions s))]
     (task_status s) (validation_status s) (Built (code_chunks s))
     (Built (errors_detected s)) = Inr (Built s)"
  by (simp add: TaskState_new_def kwargs_ok_def TaskState_keys_def
      TaskState_required_def field_req_def field_or_def as_str_def as_int_def as_dict_def
      as_list_str as_opt_str_roundtrip as_list_def those_map_roundtrip
      as_CodeRevision_roundtrip as_Feedback_roundtrip py_def)


lemma from_dict_to_dict: "from_dict (to_dict s) = Inr (Built s)"
  unfolding to_dict_def from_dict_def
  apply (simp only: json.case)
  apply (subst TaskState_new_roundtrip [symmetric])
  apply (simp add: TaskStatus_roundtrip ValidationStatus_roundtrip
        py_iter_def build_all_roundtrip CodeChunk_roundtrip ErrorInfo_roundtrip py_def)
  done


lemma save_state_fails_open:
  assumes "\<not> creatable env (task_id s @ py ''.json'')"
  shows "save_state env dir s = (Some OpenError, dir)"
  using assms by (simp add: save_state_def)






lemma load_state_absent: "dir tid = None \<Longrightarrow> load_state dir tid = Inr None"
  by (simp add: load_state_def)

lemma load_state_rejected: "dir tid = Some Rejected \<Longrightarrow> load_state dir tid = Inr None"
  by (simp add: load_state_def)

lemma load_state_no_status:
  "dir tid = Some (Parses (JObj kv)) \<Longrightarrow> map_of kv (py ''task_status'') = None \<Longrightarrow>
   load_state dir tid = Inr None"
  by (simp add: load_state_def from_dict_def)

lemma load_state_bad_status:
  "dir tid = Some (Parses (JObj kv)) \<Longrightarrow> map_of kv (py ''task_status'') = Some v \<Longrightarrow>
   TaskStatus_of v = None \<Longrightarrow> load_state dir tid = Inr None"
  by (simp add: load_state_def from_dict_def)

text \<open>
  C9 at a stored record that lacks the key \<open>task_id\<close>: the constructor call at the
  end of \<open>from_dict\<close> raises TypeError, which the \<open>except\<close> clause of \<open>load_state\<close>
  does not name, so the call raises instead of returning \<open>None\<close>.
\<close>

theorem load_state_missing_task_id_raises:
  "load_state
     (Map.empty(py ''t1'' \<mapsto> Parses (JObj
        [(py ''original_task'', JStr (py ''make a game'')),
         (py ''created_at'', JStr (py ''2025-12-21T07:29:35'')),
         (py ''updated_at'', JStr (py ''2025-12-21T07:29:35'')),
         (py ''task_status'', JStr (py ''pending'')),
         (py ''validation_status'', JStr (py ''not_started''))])))
     (py ''t1'') = Inl TypeError"
  by (simp add: load_state_def from_dict_def TaskStatus_of_def ValidationStatus_of_def
      py_iter_def TaskState_new_def kwargs_ok_def TaskState_keys_def TaskState_required_def
      py_def)

lemma load_state_not_a_dict:
  "load_state (Map.empty(py ''t1'' \<mapsto> Parses (JArr []))) (py ''t1'') = Inl TypeError"
  by (simp add: load_state_def from_dict_def)

section \<open>Properties of progress and of the code history\<close>

lemma add_errors_frame:
  "subtasks (add_errors clock k s es ctx fb) = subtasks s
   \<and> current_subtask_index (add_errors clock k s es ctx fb) = current_subtask_index s
   \<and> code_history (add_errors clock k s es ctx fb) = code_history s
   \<and> current_code (add_errors clock k s es ctx fb) = current_code s"
  by (induction es arbitrary: k s) (simp_all add: add_error_def)

lemma execute_subtask_plan:
  assumes "execute_subtask sv clock s i = Some (s', ok)"
  shows "subtasks s' = subtasks s \<and> current_subtask_index s' = current_subtask_index s"
  using assms
  by (auto simp: execute_subtask_def Let_def add_errors_frame add_code_chunk_def
      split: if_splits option.splits)

lemma list_get_Some:
  "0 \<le> i \<Longrightarrow> i < int (length xs) \<Longrightarrow> list_get xs i = Some (xs ! nat i)"
  by (simp add: list_get_def)

lemma move_to_next_subtask_index:
  assumes "0 \<le> current_subtask_index s"
  shows "\<exists>s'. move_to_next_subtask s = Some s' \<and> subtasks s' = subtasks s
     \<and> current_subtask_index s \<le> current_subtask_index s'
     \<and> (current_subtask_index s \<le> int (length (subtasks s))
          \<longrightarrow> current_subtask_index s' \<le> int (length (subtasks s)))"
proof (cases "current_subtask_index s < int (length (subtasks s)) - 1")
  case True
  with assms have "list_get (subtasks s) (current_subtask_index s + 1)
      = Some (subtasks s ! nat (current_subtask_index s + 1))"
    by (intro list_get_Some) auto
  with True show ?thesis by (simp add: move_to_next_subtask_def)
next
  case False
  then show ?thesis by (simp add: move_to_next_subtask_def)
qed

lemma session_index_bounded:
  "session s \<Longrightarrow>
   0 \<le> current_subtask_index s \<and> current_subtask_index s \<le> int (length (subtasks s))"
proof (induction rule: session.induct)
  case (created new_id now1 now2 task)
  show ?case by (simp add: create_new_state_def)
next
  case (planned s T sv)
  show ?case by (simp add: plan_task_def Let_def)
next
  case (executed s sv clock i s' ok)
  with execute_subtask_plan [OF executed.hyps(2)] show ?case by simp
next
  case (sprites s sps)
  then show ?case by (simp add: add_sprites_to_game_def Let_def)
next
  case (advanced s s')
  from advanced.IH have "0 \<le> current_subtask_index s" by simp
  from move_to_next_subtask_index [OF this] advanced.hyps(2) advanced.IH
  show ?case by auto
qed (simp_all add: add_code_chunk_def add_error_def add_user_feedback_def)

lemma progress_percentage_bounds:
  assumes "0 \<le> current_subtask_index s"
    and "current_subtask_index s \<le> int (length (subtasks s))"
  shows "0 \<le> progress_percentage s \<and> progress_percentage s \<le> 100"
proof (cases "subtasks s = []")
  case True
  then show ?thesis by (simp add: progress_percentage_def)
next
  case False
  then have pos: "0 < real (length (subtasks s))" by simp
  have le: "real_of_int (current_subtask_index s) \<le> real (length (subtasks s))"
    using assms(2) by (metis of_int_le_iff of_int_of_nat_eq)
  have nn: "0 \<le> real_of_int (current_subtask_index s)" using assms(1) by simp
  define x where "x = real_of_int (current_subtask_index s) / real (length (subtasks s))"
  have x1: "x \<le> 1"
    unfolding x_def using pos le by (simp add: divide_le_eq_1)
  have x0: "0 \<le> x"
    unfolding x_def using pos nn by simp
  have p: "progress_percentage s = x * 100"
    unfolding x_def using False by (simp only: progress_percentage_def if_False)
  from x0 x1 show ?thesis unfolding p by simp
qed

lemma progress_percentage_mono:
  assumes "subtasks s' = subtasks s"
    and "current_subtask_index s \<le> current_subtask_index s'"
  shows "progress_percentage s \<le> progress_percentage s'"
  using assms by (simp add: progress_percentage_def divide_right_mono)

text \<open>
  In every state of a session the index lies within the plan, so the percentage lies
  between 0 and 100 and \<open>move_to_next_subtask\<close> returns a state of the session.
\<close>

lemma progress_percentage_session:
  assumes "session s"
  shows "progress_percentage s =
       (if subtasks s = [] then 0
        else real_of_int (current_subtask_index s) / real (length (subtasks s)) * 100)
     \<and> 0 \<le> progress_percentage s \<and> progress_percentage s \<le> 100
     \<and> (\<exists>s'. move_to_next_subtask s = Some s' \<and> session s'
            \<and> progress_percentage s \<le> progress_percentage s')"
proof -
  from session_index_bounded [OF assms]
  have b: "0 \<le> current_subtask_index s"
    and c: "current_subtask_index s \<le> int (length (subtasks s))" by simp_all
  from move_to_next_subtask_index [OF b] obtain s' where
    m: "move_to_next_subtask s = Some s'" and st: "subtasks s' = subtasks s"
    and i: "current_subtask_index s \<le> current_subtask_index s'" by blast
  have "session s'" using assms m by (rule session.advanced)
  moreover have "progress_percentage s \<le> progress_percentage s'"
    using st i by (rule progress_percentage_mono)
  ultimately show ?thesis
    using progress_percentage_bounds [OF b c] m by (simp add: progress_percentage_def)
qed

lemma get_fallback_subtasks_length: "length (get_fallback_subtasks T task) = 6"
  by (simp add: get_fallback_subtasks_def base_tasks_def snake_tasks_def platformer_tasks_def)

lemma decompose_task_offline:
  "decompose_task T offline task = get_fallback_subtasks T task"
  by (simp add: decompose_task_def offline_def)

text \<open>A state of a session: a new state planned with the fallback plan of six subtasks.\<close>

lemma progress_percentage_planned:
  "session (plan_task basic_latin offline (create_new_state [] [] [] []))
   \<and> progress_percentage (plan_task basic_latin offline (create_new_state [] [] [] [])) = 0
   \<and> (\<exists>s'. move_to_next_subtask (plan_task basic_latin offline (create_new_state [] [] [] []))
              = Some s'
          \<and> progress_percentage (plan_task basic_latin offline (create_new_state [] [] [] []))
              \<le> progress_percentage s')"
proof -
  have s: "session (plan_task basic_latin offline (create_new_state [] [] [] []))"
    by (intro session.planned session.created)
  have "current_subtask_index (plan_task basic_latin offline (create_new_state [] [] [] [])) = 0"
    by (simp add: plan_task_def Let_def)
  then have "progress_percentage (plan_task basic_latin offline (create_new_state [] [] [] [])) = 0"
    by (simp add: progress_percentage_def)
  with s progress_percentage_session [OF s] show ?thesis by blast
qed

lemma move_to_next_subtask_mono:
  assumes "move_to_next_subtask s = Some s'"
  shows "progress_percentage s \<le> progress_percentage s'"
proof -
  from assms have "subtasks s' = subtasks s
      \<and> current_subtask_index s \<le> current_subtask_index s'"
    by (auto simp: move_to_next_subtask_def split: if_splits option.splits)
  then show ?thesis by (simp add: progress_percentage_mono)
qed

text \<open>
  C8, amended: for every state \<open>progress_percentage\<close> is the index over the number of
  subtasks times 100 (0 without subtasks), and no call of \<open>move_to_next_subtask\<close>
  lowers it.  For every state whose index lies between 0 and the number of subtasks
  the percentage lies between 0 and 100, \<open>move_to_next_subtask\<close> returns, and the
  index lies within the same bounds afterwards.
\<close>

theorem progress_percentage_index_bounded:
  "progress_percentage s =
     (if subtasks s = [] then 0
      else real_of_int (current_subtask_index s) / real (length (subtasks s)) * 100)
   \<and> (\<forall>s'. move_to_next_subtask s = Some s' \<longrightarrow>
          progress_percentage s \<le> progress_percentage s')
   \<and> (0 \<le> current_subtask_index s \<and> current_subtask_index s \<le> int (length (subtasks s)) \<longrightarrow>
        0 \<le> progress_percentage s \<and> progress_percentage s \<le> 100
        \<and> (\<exists>s'. move_to_next_subtask s = Some s'
               \<and> 0 \<le> current_subtask_index s'
               \<and> current_subtask_index s' \<le> int (length (subtasks s'))))"
proof (intro conjI allI impI)
  show "progress_percentage s =
     (if subtasks s = [] then 0
      else real_of_int (current_subtask_index s) / real (length (subtasks s)) * 100)"
    by (simp add: progress_percentage_def)
next
  fix s' assume "move_to_next_subtask s = Some s'"
  then show "progress_percentage s \<le> progress_percentage s'"
    by (rule move_to_next_subtask_mono)
next
  assume b: "0 \<le> current_subtask_index s \<and> current_subtask_index s \<le> int (length (subtasks s))"
  then show "0 \<le> progress_percentage s"
    using progress_percentage_bounds [of s] by simp
  from b show "progress_percentage s \<le> 100"
    using progress_percentage_bounds [of s] by simp
  from b have "0 \<le> current_subtask_index s" by simp
  from move_to_next_subtask_index [OF this] b
  show "\<exists>s'. move_to_next_subtask s = Some s'
          \<and> 0 \<le> current_subtask_index s'
          \<and> current_subtask_index s' \<le> int (length (subtasks s'))"
    by auto
qed

text \<open>
  The amended C8 at the start of a plan of two subtasks: the percentage is 0, and
  after the advance it is 50.
\<close>

theorem progress_percentage_index_bounded_witness:
  "0 \<le> current_subtask_index two_step_plan
   \<and> current_subtask_index two_step_plan \<le> int (length (subtasks two_step_plan))
   \<and> progress_percentage two_step_plan = 0
   \<and> progress_percentage two_step_plan \<le> 100
   \<and> (\<exists>s'. move_to_next_subtask two_step_plan = Some s'
          \<and> progress_percentage s' = 50
          \<and> progress_percentage two_step_plan \<le> progress_percentage s')"
proof -
  have i: "current_subtask_index two_step_plan = 0"
    and n: "length (subtasks two_step_plan) = 2"
    by (simp_all add: two_step_plan_def)
  have p: "progress_percentage two_step_plan = 0"
    by (simp add: progress_percentage_def i)
  obtain s' where m: "move_to_next_subtask two_step_plan = Some s'"
    and s': "s' = two_step_plan\<lparr>current_subtask_index := 1,
                 current_subtask := Some (py ''add player''), task_status := CODING\<rparr>"
    by (simp add: move_to_next_subtask_def list_get_def two_step_plan_def)
  have p': "progress_percentage s' = 50"
    by (simp add: s' progress_percentage_def two_step_plan_def)
  from progress_percentage_index_bounded [of two_step_plan] m
  have "progress_percentage two_step_plan \<le> progress_percentage s'"
    and "progress_percentage two_step_plan \<le> 100"
    by (simp_all add: i n)
  with i n p m p' show ?thesis by simp
qed

text \<open>
  C8 as stated fails at a state whose index, 5, lies beyond its plan of one subtask:
  the percentage is 500.
\<close>

theorem progress_percentage_beyond_plan_counterexample:
  "progress_percentage beyond_plan = 500 \<and> \<not> progress_percentage beyond_plan \<le> 100"
  by (simp add: progress_percentage_def beyond_plan_def)

text \<open>
  That state is no state of a session, but \<open>load_state\<close> returns it from a stored
  record that holds it.
\<close>

lemma beyond_plan_not_session: "\<not> session beyond_plan"
proof
  assume "session beyond_plan"
  from session_index_bounded [OF this] show False
    by (simp add: beyond_plan_def)
qed

lemma beyond_plan_loaded:
  "load_state (Map.empty(py ''task_1'' \<mapsto> Parses (to_dict beyond_plan))) (py ''task_1'')
     = Inr (Some (Built beyond_plan))"
  by (simp add: load_state_def from_dict_to_dict)

lemma chained_append:
  "chained (h @ [e]) = (chained h \<and> (h = [] \<or> new_code (last h) = previous_code e))"
  by (induction h rule: chained.induct) auto

lemma history_consistent_created: "history_consistent (create_new_state new_id now1 now2 task)"
  by (simp add: history_consistent_def create_new_state_def)

lemma history_consistent_add_code_chunk:
  "history_consistent s \<Longrightarrow> history_consistent (add_code_chunk now1 now2 s st code m)"
  by (auto simp: history_consistent_def add_code_chunk_def chained_append)

lemma history_consistent_frame:
  "code_history s' = code_history s \<Longrightarrow> current_code s' = current_code s \<Longrightarrow>
   history_consistent s' = history_consistent s"
  by (simp add: history_consistent_def)

lemma history_consistent_add_error:
  "history_consistent (add_error now1 now2 s ty de ctx fb) = history_consistent s"
  by (rule history_consistent_frame) (simp_all add: add_error_def)

lemma history_consistent_add_user_feedback:
  "history_consistent (add_user_feedback now1 now2 s q a) = history_consistent s"
  by (rule history_consistent_frame) (simp_all add: add_user_feedback_def)

lemma history_consistent_plan_task:
  "history_consistent (plan_task T sv s) = history_consistent s"
  by (rule history_consistent_frame) (simp_all add: plan_task_def Let_def)

lemma history_consistent_move_to_next_subtask:
  "move_to_next_subtask s = Some s' \<Longrightarrow> history_consistent s' = history_consistent s"
  by (rule history_consistent_frame)
     (auto simp: move_to_next_subtask_def split: if_splits option.splits)

lemma history_consistent_final_check:
  "history_consistent (final_check sv s task) = history_consistent s"
  by (rule history_consistent_frame) (simp_all add: final_check_def Let_def)

lemma history_consistent_execute_subtask:
  assumes "history_consistent s" and "execute_subtask sv clock s i = Some (s', ok)"
  shows "history_consistent s'"
proof (cases "i \<ge> int (length (subtasks s))")
  case True
  with assms show ?thesis by (simp add: execute_subtask_def)
next
  case False
  with assms(2) obtain st code where
    s': "s' = add_errors clock 2
                (add_code_chunk (clock 0) (clock 1) s st code (py ''codellama:7b-instruct''))
                (a_errors_detected (analyze_code sv (generate sv (current_code s) st)
                   (original_task s)))
                (drop (length code - 500) code)
                (a_user_feedback (analyze_code sv (generate sv (current_code s) st)
                   (original_task s)))"
    by (auto simp: execute_subtask_def Let_def split: option.splits)
  have "history_consistent s'
      = history_consistent (add_code_chunk (clock 0) (clock 1) s st code (py ''codellama:7b-instruct''))"
    unfolding s' by (rule history_consistent_frame) (simp_all add: add_errors_frame)
  with assms(1) show ?thesis by (simp add: history_consistent_add_code_chunk)
qed


lemma inject_plain:
  "inject_sprite_code (py ''x = 1'') sc = py ''x = 1'' @ [10, 10] @ sc"
  by (simp add: inject_sprite_code_def main_guard_def py_def)

text \<open>
  C1 at the sprite injection: after one revision the history is consistent; the
  injection of one sprite then changes \<open>current_code\<close> and appends no entry, so
  \<open>current_code\<close> is no longer the \<open>new_code\<close> of the last entry.
\<close>

theorem sprite_injection_breaks_history:
  "session (add_sprites_to_game
      (add_code_chunk (py ''t1'') (py ''t2'') (create_new_state (py ''id'') (py ''t0'') (py ''t0'')
         (py ''make a game'')) (py ''create window'') (py ''x = 1'') (py ''codellama:7b-instruct''))
      [hero])
   \<and> history_consistent
       (add_code_chunk (py ''t1'') (py ''t2'') (create_new_state (py ''id'') (py ''t0'') (py ''t0'')
         (py ''make a game'')) (py ''create window'') (py ''x = 1'') (py ''codellama:7b-instruct''))
   \<and> \<not> history_consistent (add_sprites_to_game
      (add_code_chunk (py ''t1'') (py ''t2'') (create_new_state (py ''id'') (py ''t0'') (py ''t0'')
         (py ''make a game'')) (py ''create window'') (py ''x = 1'') (py ''codellama:7b-instruct''))
      [hero])"
proof -
  let ?s0 = "create_new_state (py ''id'') (py ''t0'') (py ''t0'') (py ''make a game'')"
  let ?s1 = "add_code_chunk (py ''t1'') (py ''t2'') ?s0 (py ''create window'') (py ''x = 1'')
               (py ''codellama:7b-instruct'')"
  have a: "session (add_sprites_to_game ?s1 [hero])"
    by (intro session.sprites session.chunk session.created)
  have b: "history_consistent ?s1"
    by (intro history_consistent_add_code_chunk history_consistent_created)
  have cur: "current_code (add_sprites_to_game ?s1 [hero])
      = py ''x = 1'' @ [10, 10] @ create_sprite_loading_code [hero]"
    by (simp add: add_sprites_to_game_def Let_def add_code_chunk_def inject_plain)
  have hist: "code_history (add_sprites_to_game ?s1 [hero]) = code_history ?s1"
    by (simp add: add_sprites_to_game_def Let_def)
  have "new_code (last (code_history ?s1)) = py ''x = 1''"
    by (simp add: add_code_chunk_def)
  then have c: "\<not> history_consistent (add_sprites_to_game ?s1 [hero])"
    unfolding history_consistent_def hist cur
    by (simp add: add_code_chunk_def create_new_state_def)
  from a b c show ?thesis by blast
qed

text \<open>
  A revision appended after the injection starts from the injected code, so it does
  not chain with the entry before it.
\<close>

lemma revision_after_sprites_unchained:
  "\<not> chained (code_history
      (add_code_chunk (py ''t3'') (py ''t4'')
         (add_sprites_to_game
            (add_code_chunk (py ''t1'') (py ''t2'')
               (create_new_state (py ''id'') (py ''t0'') (py ''t0'') (py ''make a game''))
               (py ''create window'') (py ''x = 1'') (py ''codellama:7b-instruct''))
            [hero])
         (py ''add player'') (py ''x = 2'') (py ''codellama:7b-instruct'')))"
  by (simp add: add_code_chunk_def add_sprites_to_game_def Let_def create_new_state_def
      inject_plain)

lemma analyze_code_execution_success:
  "a_execution_success (analyze_code sv code task) = er_success (execute_code_safe sv code)"
  by (simp add: analyze_code_def Let_def)

lemma execute_code_safe_success:
  "er_success (execute_code_safe sv code)
     = (case sandbox sv (sanitize_code code) of Exited rc out err \<Rightarrow> rc = 0 | _ \<Rightarrow> False)"
  by (simp add: execute_code_safe_def split: run_outcome.splits)

lemma final_check_completed_iff:
  "current_code s \<noteq> [] \<Longrightarrow>
   (task_status (final_check sv s task) = COMPLETED)
     = a_execution_success (analyze_code sv (current_code s) task)"
  by (simp add: final_check_def Let_def)

lemma final_check_no_code:
  "current_code s = [] \<Longrightarrow> task_status (final_check sv s task) = FAILED"
  by (simp add: final_check_def Let_def)

text \<open>
  C2 as the code has it: when the final run of a non-empty source fails, the
  validation status becomes FAILED and the task status stays TESTING, which is neither
  COMPLETED nor FAILED; the task status is COMPLETED exactly when the run succeeds.
\<close>

theorem final_check_failed_run:
  assumes "current_code s \<noteq> []"
    and "\<not> a_execution_success (analyze_code sv (current_code s) task)"
  shows "task_status (final_check sv s task) = TESTING
    \<and> validation_status (final_check sv s task) = V_FAILED
    \<and> task_status (final_check sv s task) \<noteq> FAILED"
  using assms by (simp add: final_check_def Let_def)

text \<open>
  C2 at a final run that exits with code 1: the state has the source \<open>x\<close>, the run
  fails, and the task status after the final check is TESTING.
\<close>

theorem final_check_failed_run_stays_testing:
  "current_code
       (add_code_chunk (py ''t1'') (py ''t2'')
          (create_new_state (py ''id'') (py ''t0'') (py ''t0'') (py ''make a game''))
          (py ''create window'') (py ''x'') (py ''codellama:7b-instruct'')) = py ''x''
   \<and> \<not> a_execution_success
       (analyze_code (offline\<lparr>sandbox := (\<lambda>code. Exited 1 [] (py ''NameError: name x''))\<rparr>)
          (py ''x'') (py ''make a game''))
   \<and> task_status
       (final_check (offline\<lparr>sandbox := (\<lambda>code. Exited 1 [] (py ''NameError: name x''))\<rparr>)
          (add_code_chunk (py ''t1'') (py ''t2'')
             (create_new_state (py ''id'') (py ''t0'') (py ''t0'') (py ''make a game''))
             (py ''create window'') (py ''x'') (py ''codellama:7b-instruct''))
          (py ''make a game'')) = TESTING
   \<and> validation_status
       (final_check (offline\<lparr>sandbox := (\<lambda>code. Exited 1 [] (py ''NameError: name x''))\<rparr>)
          (add_code_chunk (py ''t1'') (py ''t2'')
             (create_new_state (py ''id'') (py ''t0'') (py ''t0'') (py ''make a game''))
             (py ''create window'') (py ''x'') (py ''codellama:7b-instruct''))
          (py ''make a game'')) = V_FAILED"
proof -
  let ?sv = "offline\<lparr>sandbox := (\<lambda>code. Exited 1 [] (py ''NameError: name x''))\<rparr>"
  let ?s = "add_code_chunk (py ''t1'') (py ''t2'')
              (create_new_state (py ''id'') (py ''t0'') (py ''t0'') (py ''make a game''))
              (py ''create window'') (py ''x'') (py ''codellama:7b-instruct'')"
  have c: "current_code ?s = py ''x''"
    by (simp add: add_code_chunk_def)
  have ne: "current_code ?s \<noteq> []"
    by (simp add: add_code_chunk_def py_def)
  have f: "\<not> a_execution_success (analyze_code ?sv (py ''x'') (py ''make a game''))"
    by (simp add: analyze_code_execution_success execute_code_safe_success)
  have f': "\<not> a_execution_success (analyze_code ?sv (current_code ?s) (py ''make a game''))"
    unfolding c by (rule f)
  from final_check_failed_run [OF ne f'] c f show ?thesis by blast
qed

section \<open>Properties of the planner, the coder and the validator\<close>

lemma parse_subtasks_length: "length (parse_subtasks T response) \<le> 7"
  by (simp add: parse_subtasks_def)

lemma decompose_task_length:
  "1 \<le> length (decompose_task T sv task) \<and> length (decompose_task T sv task) \<le> 7"
proof (cases "planner_reply sv task")
  case (Inl e)
  then show ?thesis by (simp add: decompose_task_def get_fallback_subtasks_length)
next
  case (Inr response)
  show ?thesis
  proof (cases "parse_subtasks T response = []")
    case True
    with Inr show ?thesis by (simp add: decompose_task_def get_fallback_subtasks_length)
  next
    case False
    then have "1 \<le> length (parse_subtasks T response)"
      by (cases "parse_subtasks T response") auto
    with Inr False parse_subtasks_length [of T response] show ?thesis
      by (simp add: decompose_task_def Let_def)
  qed
qed

lemma decompose_task_inference_fails:
  "planner_reply sv task = Inl e \<Longrightarrow>
   decompose_task T sv task = get_fallback_subtasks T task
   \<and> length (decompose_task T sv task) = 6"
  by (simp add: decompose_task_def get_fallback_subtasks_length)

lemma parse_one_line:
  "parse_subtasks basic_latin (py ''1. Create the main game window'')
     = [py ''Create the main game window'']"
  by (simp add: parse_subtasks_def strip_def py_isspace_def match_patterns_def Let_def
      tail_group_def keep_subtask_def startswith_def basic_latin_def py_def)

text \<open>
  C4 at a reply of the planner model with one numbered line: the plan returned has one
  subtask, fewer than three.
\<close>

theorem decompose_task_single_subtask:
  "decompose_task basic_latin
     (offline\<lparr>planner_reply := (\<lambda>task. Inr (py ''1. Create the main game window''))\<rparr>)
     (py ''make a game'') = [py ''Create the main game window'']
   \<and> length (decompose_task basic_latin
     (offline\<lparr>planner_reply := (\<lambda>task. Inr (py ''1. Create the main game window''))\<rparr>)
     (py ''make a game'')) = 1"
  by (simp add: decompose_task_def parse_one_line Let_def)


lemma contains_self_append: "contains sub (sub @ post)"
  by (rule prefix_contains) simp

lemma contains_append: "contains sub (pre @ sub @ post)"
  by (induction pre) (simp_all add: contains_self_append)

lemma fallback_code_nonempty: "fallback_code modification e \<noteq> []"
  by (simp add: fallback_code_def fallback_comment_def py_def)

lemma fallback_code_annotated:
  "contains modification (fallback_code modification e)
   \<and> contains (take 100 e) (fallback_code modification e)"
proof -
  have "contains modification
      (fallback_comment @ modification @ (fallback_error_line @ take 100 e
         @ [10] @ join_nl fallback_skeleton))"
    by (rule contains_append)
  moreover have "contains (take 100 e)
      ((fallback_comment @ modification @ fallback_error_line) @ take 100 e
         @ ([10] @ join_nl fallback_skeleton))"
    by (rule contains_append)
  ultimately show ?thesis by (simp add: fallback_code_def)
qed

text \<open>
  When the inference call raises, \<open>generate\<close> returns the fallback skeleton, which is
  not empty and carries the modification and the first 100 characters of the
  exception's text.
\<close>

lemma generate_on_exception:
  assumes "coder_reply sv current_code' modification = Inl e"
  shows "generate sv current_code' modification = fallback_code modification e
    \<and> generate sv current_code' modification \<noteq> []
    \<and> contains modification (generate sv current_code' modification)
    \<and> contains (take 100 e) (generate sv current_code' modification)"
  using assms fallback_code_nonempty [of modification e]
    fallback_code_annotated [of modification e]
  by (simp add: generate_def)

text \<open>
  The analysis of the empty source where its run exits with code 0: five static
  issues, the answer \<open>success\<close> without asking the operator, and no repair applied.
\<close>

lemma static_analysis_empty: "length (static_analysis []) = 5"
  by (simp add: static_analysis_def startswith_def enc_decl_def py_def)

lemma analyze_code_empty_source:
  assumes "sandbox sv [] = Exited 0 out err"
  shows "\<not> a_fix_applied (analyze_code sv [] task)
    \<and> a_user_feedback (analyze_code sv [] task) = Some (py ''success'')"
proof -
  have s: "er_success (execute_code_safe sv [])"
    using assms by (simp add: execute_code_safe_def sanitize_code_def)
  have m: "mechanical_fixes (static_analysis []) [] = []"
    by (simp add: static_analysis_def startswith_def enc_decl_def static_issue_def py_def)
  have e: "static_analysis [] \<noteq> []"
    using static_analysis_empty by auto
  have ne: "py ''success'' \<noteq> py ''auto_fix''" "py ''success'' \<noteq> py ''skip''"
    by (simp_all add: py_def)
  have g: "generate_fix sv [] (static_analysis []) (py ''success'') task = []"
    using e ne by (simp add: generate_fix_def sanitize_code_def m Let_def)
  show ?thesis
    using s e g ne
    by (simp add: analyze_code_def Let_def get_user_feedback_def)
qed

text \<open>
  C5 at an empty reply of the coder model: the inference call returns, none of the
  cleaning steps adds text, and \<open>generate\<close> returns the empty text.
\<close>

theorem generate_empty_reply:
  assumes "coder_reply sv current_code' modification = Inr []"
  shows "generate sv current_code' modification = []"
  using assms
  by (simp add: generate_def strip_def fence_def fence_python_def py_def is_preamble_def
      startswith_def)

text \<open>
  C5 at a session whose code is \<open>x = 1\<close>: the coder model replies with the empty
  text, \<open>generate\<close> returns the empty text, and \<open>execute_subtask\<close> records it as the
  new \<open>current_code\<close> and returns \<open>True\<close>.
\<close>

theorem generate_empty_reply_wipes_code:
  "coder_reply (offline\<lparr>coder_reply := (\<lambda>code modification. Inr [])\<rparr>)
       (py ''x = 1'') (py ''add player'') = Inr []
   \<and> generate (offline\<lparr>coder_reply := (\<lambda>code modification. Inr [])\<rparr>)
       (py ''x = 1'') (py ''add player'') = []
   \<and> current_code
       (add_code_chunk (py ''t1'') (py ''t2'') two_step_plan (py ''create window'')
          (py ''x = 1'') (py ''codellama:7b-instruct'')) = py ''x = 1''
   \<and> (\<exists>s'. execute_subtask (offline\<lparr>coder_reply := (\<lambda>code modification. Inr [])\<rparr>)
              (\<lambda>k. py ''2025-12-21T07:29:35'')
              (add_code_chunk (py ''t1'') (py ''t2'') two_step_plan (py ''create window'')
                 (py ''x = 1'') (py ''codellama:7b-instruct''))
              1 = Some (s', True)
          \<and> current_code s' = [])"
proof -
  let ?sv = "offline\<lparr>coder_reply := (\<lambda>code modification. Inr [])\<rparr>"
  let ?s = "add_code_chunk (py ''t1'') (py ''t2'') two_step_plan (py ''create window'')
              (py ''x = 1'') (py ''codellama:7b-instruct'')"
  have r: "coder_reply ?sv (py ''x = 1'') (py ''add player'') = Inr []"
    by simp
  have g: "generate ?sv (py ''x = 1'') (py ''add player'') = []"
    using r by (rule generate_empty_reply)
  have c: "current_code ?s = py ''x = 1''"
    by (simp add: add_code_chunk_def)
  have sb: "sandbox ?sv [] = Exited 0 [] []"
    by (simp add: offline_def)
  have st: "subtasks ?s = [py ''create window'', py ''add player'']"
    by (simp add: add_code_chunk_def two_step_plan_def)
  have lg: "list_get [py ''create window'', py ''add player''] 1 = Some (py ''add player'')"
    by (simp add: list_get_def)
  have "current_code (add_errors clk 2
          (add_code_chunk (clk 0) (clk 1) ?s (py ''add player'') []
             (py ''codellama:7b-instruct'')) es ctx fb) = []" for clk es ctx fb
    by (simp add: add_errors_frame add_code_chunk_def)
  then have "\<exists>s'. execute_subtask ?sv (\<lambda>k. py ''2025-12-21T07:29:35'') ?s 1 = Some (s', True)
      \<and> current_code s' = []"
    using analyze_code_empty_source [OF sb]
    by (simp add: execute_subtask_def st lg c g Let_def)
  with r g c show ?thesis by blast
qed

text \<open>
  The same happens where the reply is a lead-in line only, which the cleaning drops.
\<close>

lemma generate_preamble_only:
  "generate (offline\<lparr>coder_reply := (\<lambda>code modification. Inr (py ''Here is the code:''))\<rparr>)
     [] (py ''create window'') = []"
  by (simp add: generate_def strip_def fence_def fence_python_def py_def is_preamble_def
      startswith_def py_isspace_def)

lemma static_analysis_missing_init:
  "\<not> contains (py ''pygame.init()'') code \<Longrightarrow>
   static_issue (py ''missing_init'') (py ''Missing pygame.init()'') (py ''critical'')
     \<in> set (static_analysis code)"
  by (simp add: static_analysis_def)

lemma analyze_code_zero_exit:
  assumes "sandbox sv (sanitize_code code) = Exited 0 out err"
  shows "a_execution_success (analyze_code sv code task)
    \<and> a_errors_detected (analyze_code sv code task) = static_analysis code"
proof -
  have "er_success (execute_code_safe sv code)"
    using assms by (simp add: execute_code_safe_def)
  then show ?thesis
    by (simp add: analyze_code_def Let_def)
qed

text \<open>
  C6, amended: a source without \<open>pygame.init()\<close> gets the critical issue
  \<open>missing_init\<close> from the static analysis; and when the run of the sanitized source
  exits with code 0 and empty stderr, \<open>analyze_code\<close> reports \<open>execution_success\<close> and
  \<open>errors_detected\<close> holds exactly the issues of the static analysis.
\<close>

theorem analyze_code_missing_init_and_zero_exit:
  "(\<not> contains (py ''pygame.init()'') code \<longrightarrow>
      static_issue (py ''missing_init'') (py ''Missing pygame.init()'') (py ''critical'')
        \<in> set (static_analysis code)
      \<and> i_severity (static_issue (py ''missing_init'') (py ''Missing pygame.init()'')
           (py ''critical'')) = py ''critical'')
   \<and> (sandbox sv (sanitize_code code) = Exited 0 out [] \<longrightarrow>
      a_execution_success (analyze_code sv code task)
      \<and> a_errors_detected (analyze_code sv code task) = static_analysis code)"
  using static_analysis_missing_init [of code] analyze_code_zero_exit [of sv code out "[]" task]
  by (simp add: static_issue_def)

lemma static_analysis_print:
  "static_analysis (py ''print(1)'') =
     [static_issue (py ''encoding_error'') (py ''Missing encoding declaration'') (py ''critical''),
      static_issue (py ''missing_import'') (py ''Missing pygame import'') (py ''critical''),
      static_issue (py ''missing_init'') (py ''Missing pygame.init()'') (py ''critical''),
      static_issue (py ''missing_game_loop'') (py ''No main game loop found'') (py ''high''),
      static_issue (py ''missing_display_update'') (py ''No screen update found'') (py ''high'')]"
  by (simp add: static_analysis_def startswith_def enc_decl_def py_def)

text \<open>
  The amended C6 at the one-line program \<open>print(1)\<close>.
\<close>

theorem analyze_code_missing_init_and_zero_exit_witness:
  "\<not> contains (py ''pygame.init()'') (py ''print(1)'')
   \<and> static_issue (py ''missing_init'') (py ''Missing pygame.init()'') (py ''critical'')
        \<in> set (static_analysis (py ''print(1)''))
   \<and> sandbox offline (sanitize_code (py ''print(1)'')) = Exited 0 [] []
   \<and> a_execution_success (analyze_code offline (py ''print(1)'') (py ''make a game''))
   \<and> a_errors_detected (analyze_code offline (py ''print(1)'') (py ''make a game''))
        = static_analysis (py ''print(1)'')"
proof -
  have a: "\<not> contains (py ''pygame.init()'') (py ''print(1)'')"
    by (simp add: py_def)
  have b: "sandbox offline (sanitize_code (py ''print(1)'')) = Exited 0 [] []"
    by (simp add: offline_def)
  from analyze_code_missing_init_and_zero_exit
         [of "py ''print(1)''" offline "[]" "py ''make a game''"] a b
  show ?thesis by blast
qed

text \<open>
  C6 as stated fails at \<open>print(1)\<close>: the run exits with code 0 and empty stderr, and
  \<open>errors_detected\<close> holds the five issues of the static analysis.
\<close>

theorem analyze_code_zero_exit_counterexample:
  "sandbox offline (sanitize_code (py ''print(1)'')) = Exited 0 [] []
   \<and> a_execution_success (analyze_code offline (py ''print(1)'') (py ''make a game''))
   \<and> length (a_errors_detected (analyze_code offline (py ''print(1)'') (py ''make a game''))) = 5"
proof -
  have b: "sandbox offline (sanitize_code (py ''print(1)'')) = Exited 0 [] []"
    by (simp add: offline_def)
  from analyze_code_zero_exit [OF b] b show ?thesis
    by (simp add: static_analysis_print)
qed


lemma static_analysis_tiny_game: "static_analysis tiny_game = []"
  by (simp add: static_analysis_def startswith_def enc_decl_def tiny_game_def py_def)

text \<open>
  For a source that passes the whole checklist \<open>errors_detected\<close> is empty and no
  repair is attempted.
\<close>

lemma analyze_code_tiny_game:
  "a_execution_success (analyze_code offline tiny_game task)
   \<and> a_errors_detected (analyze_code offline tiny_game task) = []
   \<and> a_fixed_code (analyze_code offline tiny_game task) = tiny_game
   \<and> \<not> a_fix_applied (analyze_code offline tiny_game task)"
proof -
  have "er_success (execute_code_safe offline tiny_game)"
    by (simp add: execute_code_safe_def offline_def)
  then show ?thesis
    by (simp add: analyze_code_def Let_def static_analysis_tiny_game)
qed

end
